theory Spec2Isabelle
  imports
    Complex_Main
    "HOL-Library.Char_ord"
    "HOL-Library.List_Lexorder"
    "HOL-Library.Sublist"
begin

section \<open>Python values used by the router\<close>

subsection \<open>Floats\<close>

text \<open>
  Every amount of money in the router (budget, spent, remaining, cost, the per-token
  rates) is a Python \<^verbatim>\<open>float\<close>, an IEEE-754 binary64 number. A finite double is a
  rational, so the model keeps the value as a \<^typ>\<open>rat\<close> and rounds the exact result of
  each operation to the nearest double, ties to even, the way the hardware does.
  Subnormal numbers are covered (the exponent stops at \<open>-1074\<close>); infinities and NaN
  are not, so the model speaks of amounts below \<open>2 ^ 1024\<close> in magnitude.
\<close>

type_synonym pyfloat = rat

definition pow2 :: "int \<Rightarrow> rat" where
  "pow2 e = (if 0 \<le> e then 2 ^ nat e else 1 / 2 ^ nat (- e))"

text \<open>Python's \<^verbatim>\<open>int.bit_length()\<close>: the number of binary digits of a positive integer.\<close>

function bit_length :: "int \<Rightarrow> int" where
  "bit_length n = (if n \<le> 0 then 0 else 1 + bit_length (n div 2))"
  by pat_completeness auto
termination
  by (relation "measure nat") auto

declare bit_length.simps [simp del]

text \<open>\<open>ilog2 x\<close> is \<open>\<lfloor>log\<^sub>2 x\<rfloor>\<close> for a positive rational \<open>x\<close>.\<close>

definition ilog2 :: "rat \<Rightarrow> int" where
  "ilog2 x = (if 1 \<le> x then bit_length \<lfloor>x\<rfloor> - 1
              else - bit_length (\<lceil>1 / x\<rceil> - 1))"

definition round_half_even :: "rat \<Rightarrow> int" where
  "round_half_even x =
     (let f = \<lfloor>x\<rfloor>; r = x - of_int f
      in if r < 1 / 2 then f
         else if 1 / 2 < r then f + 1
         else if even f then f else f + 1)"

text \<open>
  The nearest double: the significand has 53 bits, so the last place of \<open>x\<close> has weight
  \<open>2 ^ (\<lfloor>log\<^sub>2 \<bar>x\<bar>\<rfloor> - 52)\<close>, and never less than \<open>2 ^ - 1074\<close>.
\<close>

definition round_double :: "rat \<Rightarrow> pyfloat" where
  "round_double x =
     (if x = 0 then 0
      else let e = max (ilog2 \<bar>x\<bar> - 52) (- 1074)
           in of_int (round_half_even (x / pow2 e)) * pow2 e)"

definition fadd :: "pyfloat \<Rightarrow> pyfloat \<Rightarrow> pyfloat" where
  "fadd x y = round_double (x + y)"

definition fsub :: "pyfloat \<Rightarrow> pyfloat \<Rightarrow> pyfloat" where
  "fsub x y = round_double (x - y)"

definition fmul :: "pyfloat \<Rightarrow> pyfloat \<Rightarrow> pyfloat" where
  "fmul x y = round_double (x * y)"

text \<open>\<^verbatim>\<open>int * float\<close> converts the integer to a float first.\<close>

definition float_of_int :: "int \<Rightarrow> pyfloat" where
  "float_of_int n = round_double (of_int n)"

subsection \<open>Strings\<close>

text \<open>
  A Python \<^verbatim>\<open>str\<close> is a sequence of code points; the model has the code points
  below 256 (\<^typ>\<open>char\<close>), and \<^const>\<open>length\<close> counts them as \<^verbatim>\<open>len\<close> does.
  \<^verbatim>\<open>str.lower()\<close> on these maps \<open>A\<close>..\<open>Z\<close> and the Latin-1 capitals (192..222 without
  the multiplication sign 215) to the code point 32 above, and nothing else.
\<close>

definition lower_char :: "char \<Rightarrow> char" where
  "lower_char c =
     (let n = (of_char c :: nat)
      in if (65 \<le> n \<and> n \<le> 90) \<or> (192 \<le> n \<and> n \<le> 222 \<and> n \<noteq> 215)
         then char_of (n + 32) else c)"

definition lower :: "string \<Rightarrow> string" where
  "lower s = map lower_char s"

text \<open>\<^verbatim>\<open>k in s\<close> on strings: \<open>k\<close> occurs in \<open>s\<close> as a contiguous substring.\<close>

fun str_in :: "string \<Rightarrow> string \<Rightarrow> bool" where
  "str_in k [] = (k = [])"
| "str_in k (c # s) = (prefix k (c # s) \<or> str_in k s)"

section \<open>Data model\<close>

text \<open>The dictionary built in \<^verbatim>\<open>load_config\<close>; \<open>default_config\<close> is its literal.\<close>

record config =
  claude_api_key :: string
  ollama_base_url :: string
  monthly_budget :: pyfloat
  warning_threshold :: pyfloat
  escalation_keywords :: "string list"
  ollama_keywords :: "string list"
  cost_per_input_token :: pyfloat
  cost_per_output_token :: pyfloat

definition default_config :: config where
  "default_config =
     \<lparr> claude_api_key = '''',
       ollama_base_url = ''http://localhost:11434'',
       monthly_budget = 5,
       warning_threshold = 4,
       escalation_keywords =
         [''architecture'', ''design'', ''system'', ''complex'', ''ASPICE'',
          ''compliance'', ''review'', ''analysis'', ''strategy'', ''planning''],
       ollama_keywords =
         [''code'', ''refactor'', ''test'', ''debug'', ''simple'', ''function'',
          ''fix'', ''error'', ''variable'', ''loop'', ''class''],
       cost_per_input_token = round_double (3 / 1000000),
       cost_per_output_token = round_double (15 / 1000000) \<rparr>"

text \<open>
  \<^verbatim>\<open>SmartAIRouter.__init__\<close>: the Anthropic client exists when the configured key is a
  non-empty string. The client is made once; \<^verbatim>\<open>claude_client\<close> is a field of its own.
\<close>

record router =
  config :: config
  claude_client :: bool

definition init_router :: "config \<Rightarrow> router" where
  "init_router cfg = \<lparr> config = cfg, claude_client = (claude_api_key cfg \<noteq> '''') \<rparr>"

text \<open>
  The budget file \<^verbatim>\<open>budget_tracker.json\<close>: a JSON object from month keys to
  \<^verbatim>\<open>{"spent": ..., "requests": ...}\<close>. A Python dict keeps insertion order and has each
  key once, so the ledger is an association list; \<open>ledger_ok\<close> says that the keys are
  distinct. The file may be absent, or hold text that \<^verbatim>\<open>json.load\<close> rejects with a
  message.

  The router builds the path of the budget file from \<^verbatim>\<open>config_path\<close> as it is given
  (\<^verbatim>\<open>Path(config_path).parent / "budget_tracker.json"\<close>), while the path of the
  configuration is expanded with \<^verbatim>\<open>expanduser()\<close>. With the default
  \<^verbatim>\<open>"~/ai-config/router_config.json"\<close> the budget file therefore lies in the relative
  directory \<^verbatim>\<open>~/ai-config\<close>, which the router never creates. \<open>No_directory\<close> is the
  state in which that directory does not exist: the file is absent, and opening it for
  writing raises \<^verbatim>\<open>FileNotFoundError\<close>. In the state \<open>Missing\<close> the directory exists
  and the file does not.
\<close>

record entry =
  spent :: pyfloat
  requests :: int

type_synonym ledger = "(string \<times> entry) list"

definition ledger_ok :: "ledger \<Rightarrow> bool" where
  "ledger_ok bd = distinct (map fst bd)"

datatype ledger_file = No_directory | Missing | Corrupt string | Valid ledger

datatype py_error = JSONDecodeError string | FileNotFoundError string

text \<open>\<^verbatim>\<open>str(self.budget_file)\<close> for the default \<^verbatim>\<open>config_path\<close>.\<close>

definition budget_file_name :: string where
  "budget_file_name = ''~/ai-config/budget_tracker.json''"

text \<open>\<^verbatim>\<open>str(e)\<close>; the file name of a \<^verbatim>\<open>FileNotFoundError\<close> is printed in quotes.\<close>

fun str_of_error :: "py_error \<Rightarrow> string" where
  "str_of_error (JSONDecodeError msg) = msg"
| "str_of_error (FileNotFoundError name) =
     ''[Errno 2] No such file or directory: '' @ [CHR 0x27] @ name @ [CHR 0x27]"

text \<open>
  What lies outside the router: the clock (\<^verbatim>\<open>datetime.now().strftime("%Y-%m")\<close>), the
  local endpoint behind \<^verbatim>\<open>requests.post\<close> (given model and prompt) and the paid API
  behind \<^verbatim>\<open>messages.create\<close> (given the prompt). Each endpoint either returns the text
  or raises an exception \<open>e\<close>, kept as \<^verbatim>\<open>str(e)\<close>. The month does not change while
  one request is handled. The \<^verbatim>\<open>print\<close> lines of the source are left out.
\<close>

datatype reply = Reply string | Raise string

record env =
  now_month :: string
  ollama_post :: "string \<Rightarrow> string \<Rightarrow> reply"
  claude_create :: "string \<Rightarrow> reply"

text \<open>
  Effects are recorded in the order they happen: entering a backend client, the network
  request it sends, and every write of the budget file with the content written.
\<close>

datatype event =
    Enter_call_ollama string
  | Enter_call_claude string
  | Http_post string string
  | Messages_create string
  | Ledger_write ledger

record world =
  budget_file :: ledger_file
  trace :: "event list"

definition emit :: "event \<Rightarrow> world \<Rightarrow> world" where
  "emit ev w = w\<lparr> trace := trace w @ [ev] \<rparr>"

record budget_status =
  current_month :: string
  status_spent :: pyfloat
  status_requests :: int
  budget :: pyfloat
  remaining :: pyfloat
  budget_data :: ledger

text \<open>
  The result dictionaries of the backend clients. A success has no \<^verbatim>\<open>fallback\<close> key, so
  \<^verbatim>\<open>result.get("fallback")\<close> is \<^verbatim>\<open>None\<close> there.
\<close>

datatype result =
    Success (response: string) (model: string) (cost: pyfloat) (tokens_input: nat) (tokens_output: nat)
  | Failure (error: string) (fallback: bool)

fun success :: "result \<Rightarrow> bool" where
  "success (Success _ _ _ _ _) = True"
| "success (Failure _ _) = False"

fun get_fallback :: "result \<Rightarrow> bool" where
  "get_fallback (Success _ _ _ _ _) = False"
| "get_fallback (Failure _ fb) = fb"

text \<open>
  The reason strings of the source, in its order:
  \<^verbatim>\<open>Erzwungen: Ollama\<close>, \<^verbatim>\<open>Erzwungen: Claude\<close>, \<^verbatim>\<open>Budget erschoepft - Fallback zu Ollama\<close>,
  \<^verbatim>\<open>Budget niedrig - Ollama bevorzugt\<close>, \<^verbatim>\<open>Einfache Coding-Task - Ollama ausreichend\<close>,
  \<^verbatim>\<open>Komplexe Task - Claude erforderlich\<close>, \<^verbatim>\<open>Langer Prompt - Claude fuer bessere Qualitaet\<close>,
  \<^verbatim>\<open>Standard-Task - Ollama Standard\<close> (umlauts transliterated here).
\<close>

datatype reason =
    Forced_ollama
  | Forced_claude
  | Budget_exhausted
  | Budget_low
  | Simple_task
  | Complex_task
  | Long_prompt
  | Standard_task

record routed =
  result :: result
  budget_status :: budget_status
  routing_reason :: reason

section \<open>The budget ledger\<close>

definition zero_entry :: entry where
  "zero_entry = \<lparr> spent = 0, requests = 0 \<rparr>"

text \<open>
  Reading the budget file (\<^verbatim>\<open>json.load\<close> when the file exists, \<^verbatim>\<open>{}\<close> otherwise).
\<close>

fun load_budget_file :: "ledger_file \<Rightarrow> py_error + ledger" where
  "load_budget_file No_directory = Inr []"
| "load_budget_file Missing = Inr []"
| "load_budget_file (Corrupt msg) = Inl (JSONDecodeError msg)"
| "load_budget_file (Valid bd) = Inr bd"

text \<open>
  \<^verbatim>\<open>get_budget_status\<close> reads the file, adds a zeroed entry for the current month to its
  own copy when the month is absent, and writes nothing.
\<close>

definition get_budget_status :: "router \<Rightarrow> env \<Rightarrow> world \<Rightarrow> py_error + budget_status" where
  "get_budget_status r env w =
     (case load_budget_file (budget_file w) of
        Inl e \<Rightarrow> Inl e
      | Inr loaded \<Rightarrow>
          let current_month = now_month env;
              budget_data =
                (case map_of loaded current_month of
                   None \<Rightarrow> loaded @ [(current_month, zero_entry)]
                 | Some _ \<Rightarrow> loaded);
              e = (case map_of loaded current_month of None \<Rightarrow> zero_entry | Some e \<Rightarrow> e)
          in Inr \<lparr> current_month = current_month,
                   status_spent = spent e,
                   status_requests = requests e,
                   budget = monthly_budget (config r),
                   remaining = fsub (monthly_budget (config r)) (spent e),
                   budget_data = budget_data \<rparr>)"

text \<open>\<^verbatim>\<open>d[k] = f(d[k])\<close> for a key that is present: the entry keeps its place.\<close>

fun modify :: "string \<Rightarrow> (entry \<Rightarrow> entry) \<Rightarrow> ledger \<Rightarrow> ledger" where
  "modify k f [] = []"
| "modify k f ((k', e) # bd) = (if k' = k then (k', f e) # bd else (k', e) # modify k f bd)"

text \<open>\<^verbatim>\<open>xs[-3:]\<close>: the last three elements, or all of them when there are fewer.\<close>

definition last3 :: "'a list \<Rightarrow> 'a list" where
  "last3 xs = drop (length xs - 3) xs"

text \<open>\<^verbatim>\<open>{month: budget_data[month] for month in months_to_keep}\<close>\<close>

definition restrict_to :: "string list \<Rightarrow> ledger \<Rightarrow> ledger" where
  "restrict_to months bd = List.map_filter (\<lambda>month. map_option (Pair month) (map_of bd month)) months"

text \<open>
  \<^verbatim>\<open>with open(self.budget_file, 'w') as f: json.dump(budget_data, f, indent=2)\<close>. The
  file is created when its directory exists; without the directory \<^verbatim>\<open>open\<close> raises and
  nothing is written.
\<close>

definition write_budget_file :: "ledger \<Rightarrow> world \<Rightarrow> py_error + world" where
  "write_budget_file bd w =
     (case budget_file w of
        No_directory \<Rightarrow> Inl (FileNotFoundError budget_file_name)
      | _ \<Rightarrow> Inr (emit (Ledger_write bd) (w\<lparr> budget_file := Valid bd \<rparr>)))"

definition update_budget :: "router \<Rightarrow> env \<Rightarrow> pyfloat \<Rightarrow> world \<Rightarrow> py_error + world" where
  "update_budget r env c w =
     (case get_budget_status r env w of
        Inl e \<Rightarrow> Inl e
      | Inr st \<Rightarrow>
          let current_month = current_month st;
              bd0 = budget_data st;
              bd1 = modify current_month (\<lambda>e. e\<lparr> spent := fadd (spent e) c \<rparr>) bd0;
              bd2 = modify current_month (\<lambda>e. e\<lparr> requests := requests e + 1 \<rparr>) bd1;
              months_to_keep = last3 (sort (map fst bd2));
              bd3 = restrict_to months_to_keep bd2
          in write_budget_file bd3 w)"

section \<open>The router\<close>

text \<open>\<^verbatim>\<open>any(keyword in prompt_lower for keyword in keywords)\<close>\<close>

definition any_keyword_in :: "string list \<Rightarrow> string \<Rightarrow> bool" where
  "any_keyword_in keywords prompt_lower = list_ex (\<lambda>keyword. str_in keyword prompt_lower) keywords"

definition should_escalate_to_claude ::
  "router \<Rightarrow> env \<Rightarrow> world \<Rightarrow> string \<Rightarrow> py_error + (bool \<times> reason)" where
  "should_escalate_to_claude r env w prompt =
     (case get_budget_status r env w of
        Inl e \<Rightarrow> Inl e
      | Inr st \<Rightarrow>
          Inr (if remaining st \<le> 0 then (False, Budget_exhausted)
               else if remaining st < 1 / 2 then (False, Budget_low)
               else let prompt_lower = lower prompt
                    in if any_keyword_in (ollama_keywords (config r)) prompt_lower
                       then (False, Simple_task)
                       else if any_keyword_in (escalation_keywords (config r)) prompt_lower
                       then (True, Complex_task)
                       else if 1000 < length prompt then (True, Long_prompt)
                       else (False, Standard_task)))"

text \<open>
  \<^verbatim>\<open>call_ollama\<close>: one POST; any exception becomes a failure with
  \<^verbatim>\<open>fallback = True\<close>. The local backend costs nothing and reports no tokens.
\<close>

definition call_ollama :: "router \<Rightarrow> env \<Rightarrow> string \<Rightarrow> string \<Rightarrow> world \<Rightarrow> result \<times> world" where
  "call_ollama r env prompt mdl w =
     (let w1 = emit (Http_post mdl prompt) (emit (Enter_call_ollama prompt) w)
      in case ollama_post env mdl prompt of
           Reply text \<Rightarrow> (Success text (''ollama-'' @ mdl) 0 0 0, w1)
         | Raise msg \<Rightarrow> (Failure msg True, w1))"

text \<open>
  \<^verbatim>\<open>call_claude\<close>: without a client it returns at once. Otherwise the API call, the
  token estimate, the cost and \<^verbatim>\<open>update_budget\<close> all run inside one \<^verbatim>\<open>try\<close>, so an
  exception of any of them (also of reading or writing the budget file) becomes a
  failure with \<^verbatim>\<open>fallback = True\<close>.
\<close>

definition claude_cost :: "config \<Rightarrow> nat \<Rightarrow> nat \<Rightarrow> pyfloat" where
  "claude_cost cfg input_tokens output_tokens =
     fadd (fmul (float_of_int (int input_tokens)) (cost_per_input_token cfg))
          (fmul (float_of_int (int output_tokens)) (cost_per_output_token cfg))"

definition call_claude :: "router \<Rightarrow> env \<Rightarrow> string \<Rightarrow> world \<Rightarrow> result \<times> world" where
  "call_claude r env prompt w =
     (let w0 = emit (Enter_call_claude prompt) w
      in if \<not> claude_client r
         then (Failure ''Claude API key nicht konfiguriert'' True, w0)
         else
           (let w1 = emit (Messages_create prompt) w0
            in case claude_create env prompt of
                 Raise msg \<Rightarrow> (Failure msg True, w1)
               | Reply text \<Rightarrow>
                   (let input_tokens = length prompt div 4;
                        output_tokens = length text div 4;
                        c = claude_cost (config r) input_tokens output_tokens
                    in (case update_budget r env c w1 of
                          Inl e \<Rightarrow> (Failure (str_of_error e) True, w1)
                        | Inr w2 \<Rightarrow>
                            (Success text ''claude-3-sonnet'' c input_tokens output_tokens, w2)))))"

text \<open>
  The first statement of \<^verbatim>\<open>route_request\<close>: the forced backend, or the router's
  decision. \<open>True\<close> stands for the paid backend.
\<close>

definition routing_decision ::
  "router \<Rightarrow> env \<Rightarrow> world \<Rightarrow> string \<Rightarrow> string option \<Rightarrow> py_error + (bool \<times> reason)" where
  "routing_decision r env w prompt force_model =
     (if force_model = Some ''ollama'' then Inr (False, Forced_ollama)
      else if force_model = Some ''claude'' then Inr (True, Forced_claude)
      else should_escalate_to_claude r env w prompt)"

text \<open>The \<^verbatim>\<open>if should_use_claude: ... else: ...\<close> of \<^verbatim>\<open>route_request\<close>.\<close>

definition dispatch :: "router \<Rightarrow> env \<Rightarrow> string \<Rightarrow> bool \<Rightarrow> world \<Rightarrow> result \<times> world" where
  "dispatch r env prompt should_use_claude w =
     (if should_use_claude
      then (case call_claude r env prompt w of
              (res, w1) \<Rightarrow>
                if \<not> success res \<and> get_fallback res
                then call_ollama r env prompt ''mistral'' w1
                else (res, w1))
      else call_ollama r env prompt ''mistral'' w)"

text \<open>
  \<^verbatim>\<open>route_request\<close>. An exception of \<^verbatim>\<open>get_budget_status\<close> is not caught here and
  leaves the function; the effects made before it stay.
\<close>

definition route_request ::
  "router \<Rightarrow> env \<Rightarrow> string \<Rightarrow> string option \<Rightarrow> world \<Rightarrow> (py_error + routed) \<times> world" where
  "route_request r env prompt force_model w =
     (case routing_decision r env w prompt force_model of
        Inl e \<Rightarrow> (Inl e, w)
      | Inr (should_use_claude, reason) \<Rightarrow>
          (case dispatch r env prompt should_use_claude w of
             (res, w') \<Rightarrow>
               (case get_budget_status r env w' of
                  Inl e \<Rightarrow> (Inl e, w')
                | Inr st \<Rightarrow>
                    (Inr \<lparr> result = res, budget_status = st, routing_reason = reason \<rparr>, w'))))"

section \<open>The specification's reading of keyword matching\<close>

text \<open>
  "Case-insensitive substring match": the prompt contains the keyword when case is
  ignored on both sides.
\<close>

definition matches_ignoring_case :: "string \<Rightarrow> string \<Rightarrow> bool" where
  "matches_ignoring_case keyword prompt = str_in (lower keyword) (lower prompt)"

text \<open>What the source computes for one keyword: \<^verbatim>\<open>keyword in prompt.lower()\<close>.\<close>

definition keyword_matches :: "string \<Rightarrow> string \<Rightarrow> bool" where
  "keyword_matches keyword prompt = str_in keyword (lower prompt)"

section \<open>Example inputs\<close>

text \<open>Routers, surroundings and ledgers on which the theorems below are exercised.\<close>

definition ex_router :: router where
  "ex_router = init_router default_config"

definition ex_router_key :: router where
  "ex_router_key = init_router (default_config\<lparr> claude_api_key := ''sk-test'' \<rparr>)"

definition ex_env_up :: env where
  "ex_env_up =
     \<lparr> now_month = ''2025-06'',
       ollama_post = (\<lambda>mdl prompt. Reply ''local answer''),
       claude_create = (\<lambda>prompt. Reply ''paid answer'') \<rparr>"

definition ex_env_down :: env where
  "ex_env_down =
     \<lparr> now_month = ''2025-06'',
       ollama_post = (\<lambda>mdl prompt. Raise ''connection refused''),
       claude_create = (\<lambda>prompt. Raise ''overloaded'') \<rparr>"

definition ex_env_local_down :: env where
  "ex_env_local_down =
     \<lparr> now_month = ''2025-06'',
       ollama_post = (\<lambda>mdl prompt. Raise ''connection refused''),
       claude_create = (\<lambda>prompt. Reply ''paid answer'') \<rparr>"

definition ex_env_paid_down :: env where
  "ex_env_paid_down =
     \<lparr> now_month = ''2025-06'',
       ollama_post = (\<lambda>mdl prompt. Reply ''local answer''),
       claude_create = (\<lambda>prompt. Raise ''overloaded'') \<rparr>"

definition ex_env_long :: env where
  "ex_env_long =
     \<lparr> now_month = ''2025-06'',
       ollama_post = (\<lambda>mdl prompt. Reply ''local answer''),
       claude_create = (\<lambda>prompt. Reply (replicate 200 (CHR ''b''))) \<rparr>"

text \<open>The double that Python prints as \<^verbatim>\<open>0.0010500000000000002\<close>.\<close>

definition ex_cost :: pyfloat where
  "ex_cost = 2421135159674379 / 2 ^ 61"

definition ex_world :: world where
  "ex_world = \<lparr> budget_file = Missing, trace = [] \<rparr>"

definition ex_world_nodir :: world where
  "ex_world_nodir = \<lparr> budget_file = No_directory, trace = [] \<rparr>"

definition ex_router_sql :: router where
  "ex_router_sql =
     init_router (default_config\<lparr> claude_api_key := ''sk-test'', ollama_keywords := [''SQL''] \<rparr>)"

definition ex_world_exhausted :: world where
  "ex_world_exhausted =
     \<lparr> budget_file = Valid [(''2025-06'', \<lparr> spent = 5, requests = 40 \<rparr>)], trace = [] \<rparr>"

definition ex_world_low :: world where
  "ex_world_low =
     \<lparr> budget_file = Valid [(''2025-06'', \<lparr> spent = 19 / 4, requests = 38 \<rparr>)], trace = [] \<rparr>"

definition ex_world_four :: world where
  "ex_world_four =
     \<lparr> budget_file =
         Valid [(''2025-05'', \<lparr> spent = 1 / 2, requests = 3 \<rparr>),
                (''2025-03'', \<lparr> spent = 1, requests = 7 \<rparr>),
                (''2025-06'', \<lparr> spent = 1 / 4, requests = 2 \<rparr>),
                (''2025-04'', \<lparr> spent = 2, requests = 9 \<rparr>)],
       trace = [] \<rparr>"

definition ex_world_future :: world where
  "ex_world_future =
     \<lparr> budget_file =
         Valid [(''2025-06'', \<lparr> spent = 1, requests = 4 \<rparr>),
                (''2025-07'', \<lparr> spent = 0, requests = 0 \<rparr>),
                (''2025-08'', \<lparr> spent = 0, requests = 0 \<rparr>),
                (''2025-09'', \<lparr> spent = 0, requests = 0 \<rparr>)],
       trace = [] \<rparr>"

section \<open>Facts about the Python values\<close>

text \<open>
  The rounding is what it is meant to be: \<open>ilog2\<close> is the binary exponent, and
  \<open>round_double\<close> moves a number by at most half a unit in the last place. Some doubles
  known from Python (\<^verbatim>\<open>0.1\<close>, ties at \<open>2 ^ 53\<close>) come out bit for bit.
\<close>

lemma bit_length_bounds:
  "0 < n \<Longrightarrow> 1 \<le> bit_length n \<and> 2 ^ nat (bit_length n - 1) \<le> n \<and> n < 2 ^ nat (bit_length n)"
proof (induction n rule: bit_length.induct)
  case (1 n)
  then have pos: "0 < n" by simp
  have bl: "bit_length n = 1 + bit_length (n div 2)"
    using pos by (subst bit_length.simps) simp
  show ?case
  proof (cases "n div 2 = 0")
    case True
    then have "n = 1" using pos by presburger
    moreover have "bit_length (0::int) = 0" by (subst bit_length.simps) simp
    ultimately show ?thesis using bl by simp
  next
    case False
    then have h: "0 < n div 2" using pos by presburger
    with 1 pos have ih: "1 \<le> bit_length (n div 2)"
      "2 ^ nat (bit_length (n div 2) - 1) \<le> n div 2"
      "n div 2 < 2 ^ nat (bit_length (n div 2))"
      by simp_all
    define b where "b = nat (bit_length (n div 2) - 1)"
    have b1: "nat (bit_length (n div 2)) = Suc b" using ih(1) by (simp add: b_def)
    have b2: "nat (bit_length n - 1) = Suc b" using ih(1) by (simp add: bl b_def)
    have b3: "nat (bit_length n) = Suc (Suc b)" using ih(1) by (simp add: bl b_def)
    have lo: "(2::int) ^ b \<le> n div 2" using ih(2) by (simp add: b_def)
    have hi: "n div 2 < (2::int) ^ Suc b" using ih(3) by (simp add: b1)
    have "2 * (n div 2) \<le> n" "n < 2 * (n div 2) + 2" by presburger+
    with lo hi have r: "(2::int) ^ Suc b \<le> n" "n < (2::int) ^ Suc (Suc b)" by simp_all
    have c1: "1 \<le> bit_length n" using ih(1) bl by simp
    have c2: "2 ^ nat (bit_length n - 1) \<le> n" unfolding b2 by (rule r(1))
    have c3: "n < 2 ^ nat (bit_length n)" unfolding b3 by (rule r(2))
    from c1 c2 c3 show ?thesis by blast
  qed
qed

lemma bit_length_Suc:
  assumes "0 < n"
  obtains k where "bit_length n = int (Suc k)" "(2::rat) ^ k \<le> of_int n"
    "(of_int n :: rat) + 1 \<le> 2 ^ Suc k"
proof -
  define k where "k = nat (bit_length n - 1)"
  from bit_length_bounds [OF assms]
  have b: "1 \<le> bit_length n" "2 ^ nat (bit_length n - 1) \<le> n" "n < 2 ^ nat (bit_length n)"
    by blast+
  have e: "bit_length n = int (Suc k)" using b(1) by (simp add: k_def)
  have k2: "nat (bit_length n) = Suc k" using e by simp
  have "(2::int) ^ k \<le> n" using b(2) by (simp add: k_def)
  then have "(of_int ((2::int) ^ k) :: rat) \<le> of_int n" by (simp only: of_int_le_iff)
  then have lo: "(2::rat) ^ k \<le> of_int n" by simp
  have "n + 1 \<le> (2::int) ^ Suc k" using b(3) unfolding k2 by simp
  then have "(of_int (n + 1) :: rat) \<le> of_int ((2::int) ^ Suc k)" by (simp only: of_int_le_iff)
  then have hi: "(of_int n :: rat) + 1 \<le> 2 ^ Suc k" by simp
  from e lo hi show ?thesis by (rule that)
qed

lemma pow2_pos: "0 < pow2 e"
  by (simp add: pow2_def)

lemma pow2_nat: "pow2 (int k) = 2 ^ k"
  by (simp add: pow2_def)

lemma pow2_neg: "pow2 (- int k) = 1 / 2 ^ k"
  by (cases "k = 0") (simp_all add: pow2_def)

lemma ilog2_bounds:
  assumes "0 < x"
  shows "pow2 (ilog2 x) \<le> x \<and> x < pow2 (ilog2 x + 1)"
proof (cases "1 \<le> x")
  case True
  define n where "n = \<lfloor>x\<rfloor>"
  have "1 \<le> n" using True by (simp add: n_def le_floor_iff)
  then have n0: "0 < n" by simp
  have n1: "of_int n \<le> x" by (simp add: n_def)
  have n2: "x < of_int n + 1" unfolding n_def by linarith
  from bit_length_Suc [OF n0] obtain k where
    k: "bit_length n = int (Suc k)" "(2::rat) ^ k \<le> of_int n"
    "(of_int n :: rat) + 1 \<le> 2 ^ Suc k" by blast
  have il: "ilog2 x = int k" using True k(1) by (simp add: ilog2_def n_def)
  have il1: "ilog2 x + 1 = int (Suc k)" using il by simp
  have lo: "(2::rat) ^ k \<le> x" using k(2) n1 by (rule order_trans)
  have hi: "x < 2 ^ Suc k" using n2 k(3) by (rule less_le_trans)
  show ?thesis unfolding il1 unfolding il pow2_nat using lo hi by blast
next
  case False
  define y where "y = 1 / x"
  define n where "n = \<lceil>y\<rceil> - 1"
  have y: "1 < y" using False assms by (simp add: y_def)
  then have "2 \<le> \<lceil>y\<rceil>" by linarith
  then have n0: "0 < n" by (simp add: n_def)
  have n1: "of_int n < y" unfolding n_def by linarith
  have n2: "y \<le> of_int n + 1" unfolding n_def by linarith
  from bit_length_Suc [OF n0] obtain k where
    k: "bit_length n = int (Suc k)" "(2::rat) ^ k \<le> of_int n"
    "(of_int n :: rat) + 1 \<le> 2 ^ Suc k" by blast
  have il: "ilog2 x = - int (Suc k)" using False k(1) by (simp add: ilog2_def n_def y_def)
  have il1: "ilog2 x + 1 = - int k" using il by simp
  have "y \<le> 2 ^ Suc k" using n2 k(3) by (rule order_trans)
  then have lo: "1 / 2 ^ Suc k \<le> x"
    using assms by (simp add: y_def field_simps)
  have "2 ^ k < y" using k(2) n1 by (rule le_less_trans)
  then have hi: "x < 1 / 2 ^ k"
    using assms by (simp add: y_def field_simps)
  show ?thesis unfolding il1 unfolding il pow2_neg using lo hi by blast
qed

lemma round_half_even_near: "\<bar>of_int (round_half_even x) - x\<bar> \<le> 1 / 2"
proof -
  have "of_int \<lfloor>x\<rfloor> \<le> x" "x < of_int \<lfloor>x\<rfloor> + 1" by linarith+
  then show ?thesis by (auto simp: round_half_even_def Let_def)
qed

lemma round_double_error:
  assumes "x \<noteq> 0"
  shows "\<bar>round_double x - x\<bar> \<le> pow2 (max (ilog2 \<bar>x\<bar> - 52) (- 1074)) / 2"
proof -
  define p where "p = pow2 (max (ilog2 \<bar>x\<bar> - 52) (- 1074))"
  have p: "0 < p" by (simp add: p_def pow2_pos)
  have "round_double x - x = (of_int (round_half_even (x / p)) - x / p) * p"
    using assms p by (simp add: round_double_def Let_def p_def [symmetric] field_simps)
  then have "\<bar>round_double x - x\<bar> = \<bar>of_int (round_half_even (x / p)) - x / p\<bar> * p"
    using p by (simp add: abs_mult)
  also have "\<dots> \<le> 1 / 2 * p"
    using round_half_even_near [of "x / p"] p by (intro mult_right_mono) simp_all
  finally show ?thesis by (simp add: p_def)
qed

lemma round_double_anchors:
  "round_double (1 / 10) = 3602879701896397 / 2 ^ 55"
  "round_double (2 ^ 53 + 1) = 2 ^ 53"
  "round_double (2 ^ 53 + 3) = 2 ^ 53 + 4"
  "round_double (- (1 / 3)) = - (6004799503160661 / 2 ^ 54)"
  by code_simp+

lemma str_in_iff: "str_in k s \<longleftrightarrow> (\<exists>ps ss. s = ps @ k @ ss)"
proof (induction s)
  case Nil
  then show ?case by auto
next
  case (Cons c s)
  have "(\<exists>ps ss. c # s = ps @ k @ ss) \<longleftrightarrow> prefix k (c # s) \<or> (\<exists>ps ss. s = ps @ k @ ss)"
  proof
    assume "\<exists>ps ss. c # s = ps @ k @ ss"
    then obtain ps ss where eq: "c # s = ps @ k @ ss" by blast
    show "prefix k (c # s) \<or> (\<exists>ps ss. s = ps @ k @ ss)"
    proof (cases ps)
      case Nil
      with eq show ?thesis by (auto simp: prefix_def)
    next
      case (Cons p ps')
      with eq have "s = ps' @ k @ ss" by simp
      then show ?thesis by blast
    qed
  next
    assume "prefix k (c # s) \<or> (\<exists>ps ss. s = ps @ k @ ss)"
    then show "\<exists>ps ss. c # s = ps @ k @ ss"
    proof
      assume "prefix k (c # s)"
      then obtain ss where "c # s = k @ ss" by (auto simp: prefix_def)
      then have "c # s = [] @ k @ ss" by simp
      then show ?thesis by blast
    next
      assume "\<exists>ps ss. s = ps @ k @ ss"
      then obtain ps ss where "s = ps @ k @ ss" by blast
      then have "c # s = (c # ps) @ k @ ss" by simp
      then show ?thesis by blast
    qed
  qed
  with Cons show ?case by simp
qed

lemma str_in_sublist: "str_in k s \<longleftrightarrow> sublist k s"
  by (simp add: str_in_iff sublist_def)

lemma str_in_set: "str_in k s \<Longrightarrow> set k \<subseteq> set s"
  by (auto simp: str_in_iff)

lemma of_char_lower_char:
  "(of_char (lower_char c) :: nat) =
     (let n = of_char c
      in if (65 \<le> n \<and> n \<le> 90) \<or> (192 \<le> n \<and> n \<le> 222 \<and> n \<noteq> 215) then n + 32 else n)"
  by (auto simp: lower_char_def Let_def)

lemma lower_char_not_upper:
  "\<not> (65 \<le> (of_char (lower_char c) :: nat) \<and> (of_char (lower_char c) :: nat) \<le> 90)"
  by (auto simp: of_char_lower_char Let_def)

lemma no_capital_A_in_lower: "CHR ''A'' \<notin> set (lower s)"
proof
  assume "CHR ''A'' \<in> set (lower s)"
  then obtain c where "lower_char c = CHR ''A''" by (auto simp: lower_def)
  then have "(of_char (lower_char c) :: nat) = 65" by simp
  with lower_char_not_upper [of c] show False by simp
qed

lemma any_keyword_in_iff:
  "any_keyword_in keywords (lower prompt) \<longleftrightarrow> (\<exists>k \<in> set keywords. keyword_matches k prompt)"
  by (simp add: any_keyword_in_def keyword_matches_def list_ex_iff)

section \<open>Facts about the ledger\<close>

lemma map_fst_modify: "map fst (modify k f bd) = map fst bd"
  by (induction k f bd rule: modify.induct) auto

lemma map_of_modify:
  "map_of (modify k f bd) k' = (if k' = k then map_option f (map_of bd k) else map_of bd k')"
  by (induction k f bd rule: modify.induct) auto

lemma map_fst_restrict_to:
  "set months \<subseteq> fst ` set bd \<Longrightarrow> map fst (restrict_to months bd) = months"
proof (induction months)
  case Nil
  then show ?case by (simp add: restrict_to_def)
next
  case (Cons m months)
  then obtain e where "map_of bd m = Some e"
    by (metis list.set_intros(1) map_of_eq_None_iff not_Some_eq subsetD)
  with Cons show ?case by (simp add: restrict_to_def)
qed

lemma map_of_restrict_to:
  "map_of (restrict_to months bd) k = (if k \<in> set months then map_of bd k else None)"
proof (induction months)
  case Nil
  then show ?case by (simp add: restrict_to_def)
next
  case (Cons m months)
  then show ?case
    by (cases "map_of bd m") (auto simp: restrict_to_def)
qed

lemma set_last3: "set (last3 xs) \<subseteq> set xs"
  by (simp add: last3_def set_drop_subset)

lemma length_last3: "length (last3 xs) = min 3 (length xs)"
  by (simp add: last3_def)

lemma last3_sort_greatest:
  fixes ks :: "string list"
  assumes "distinct ks"
  shows "\<forall>k \<in> set ks - set (last3 (sort ks)). \<forall>k' \<in> set (last3 (sort ks)). k < k'"
proof (intro ballI)
  fix k k'
  define s where "s = sort ks"
  define n where "n = length s - 3"
  assume k: "k \<in> set ks - set (last3 (sort ks))" and k': "k' \<in> set (last3 (sort ks))"
  have split: "s = take n s @ drop n s" by simp
  have "sorted s" "distinct s" "set s = set ks"
    using assms by (simp_all add: s_def)
  from k have "k \<in> set s" "k \<notin> set (drop n s)"
    by (simp_all add: s_def n_def last3_def)
  then have kt: "k \<in> set (take n s)"
    using split by (metis Un_iff set_append)
  from k' have kd: "k' \<in> set (drop n s)"
    by (simp add: s_def n_def last3_def)
  have "sorted (take n s @ drop n s)" using \<open>sorted s\<close> by simp
  then have "k \<le> k'" using kt kd unfolding sorted_append by blast
  moreover have "distinct (take n s @ drop n s)" using \<open>distinct s\<close> by simp
  then have "k \<noteq> k'" using kt kd unfolding distinct_append by blast
  ultimately show "k < k'" by simp
qed

lemma sorted_partition:
  fixes xs :: "'a::linorder list"
  shows "sorted xs \<Longrightarrow> xs = filter (\<lambda>k. \<not> m < k) xs @ filter (\<lambda>k. m < k) xs"
proof (induction xs)
  case Nil
  then show ?case by simp
next
  case (Cons x xs)
  show ?case
  proof (cases "m < x")
    case True
    with Cons.prems have "\<forall>y \<in> set (x # xs). m < y" by auto
    then have "filter (\<lambda>k. \<not> m < k) (x # xs) = []" "filter (\<lambda>k. m < k) (x # xs) = x # xs"
      by (simp_all add: filter_empty_conv del: filter.simps)
    then show ?thesis by simp
  next
    case False
    with Cons show ?thesis by simp
  qed
qed


lemma sorted_le_last:
  fixes xs :: "'a::linorder list"
  shows "sorted xs \<Longrightarrow> x \<in> set xs \<Longrightarrow> x \<le> last xs"
  by (induction xs) auto

lemma current_month_kept:
  fixes ks :: "string list"
  assumes "m \<in> set ks" and "length (filter (\<lambda>k. m < k) ks) < 3"
  shows "m \<in> set (last3 (sort ks))"
proof -
  define s where "s = sort ks"
  define A where "A = filter (\<lambda>k. \<not> m < k) s"
  define B where "B = filter (\<lambda>k. m < k) s"
  have "B = sort (filter (\<lambda>k. m < k) ks)"
    by (simp add: B_def s_def filter_sort)
  then have lenB: "length B < 3" using assms by simp
  have s: "s = A @ B" unfolding A_def B_def by (rule sorted_partition) (simp add: s_def)
  have mA: "m \<in> set A" using assms(1) by (simp add: A_def s_def)
  then have ne: "A \<noteq> []" by auto
  have "sorted s" by (simp add: s_def)
  then have "sorted A" unfolding s sorted_append by blast
  then have "m \<le> last A" using mA by (rule sorted_le_last)
  moreover have "last A \<in> set A" using ne by simp
  then have "last A \<le> m" by (auto simp: A_def)
  ultimately have lastA: "last A = m" by simp
  have lt: "length s - 3 < length A" using lenB ne by (cases A) (auto simp: s)
  then have "last3 s = drop (length s - 3) A @ B"
    by (simp add: last3_def s)
  moreover have "drop (length s - 3) A \<noteq> []" using lt by simp
  then have "last (drop (length s - 3) A) \<in> set (drop (length s - 3) A)" by (rule last_in_set)
  then have "last A \<in> set (drop (length s - 3) A)" using lt by simp
  ultimately show ?thesis using lastA by (simp add: s_def)
qed

lemma float_examples:
  "fsub 5 0 = 5"
  "fsub 5 5 = 0"
  "fsub 5 (19 / 4) = 1 / 4"
  "fsub 5 (1 / 4) = 19 / 4"
  "fsub 5 1 = 4"
  "fadd (1 / 4) (1 / 8) = 3 / 8"
  "fadd 1 (1 / 8) = 9 / 8"
  by code_simp+

lemma get_budget_status_emit [simp]:
  "get_budget_status r env (emit ev w) = get_budget_status r env w"
  by (simp add: get_budget_status_def emit_def)

lemma get_budget_status_trace [simp]:
  "get_budget_status r env (w\<lparr> trace := t \<rparr>) = get_budget_status r env w"
  by (simp add: get_budget_status_def)

lemma get_budget_status_Inr:
  assumes "load_budget_file (budget_file w) = Inr bd"
  shows "\<exists>st. get_budget_status r env w = Inr st
     \<and> current_month st = now_month env
     \<and> map_of (budget_data st) (now_month env)
         = Some \<lparr> spent = status_spent st, requests = status_requests st \<rparr>
     \<and> set (map fst (budget_data st)) = insert (now_month env) (set (map fst bd))
     \<and> (\<forall>k. k \<noteq> now_month env \<longrightarrow> map_of (budget_data st) k = map_of bd k)
     \<and> (ledger_ok bd \<longrightarrow> ledger_ok (budget_data st))
     \<and> filter (\<lambda>k. now_month env < k) (map fst (budget_data st))
         = filter (\<lambda>k. now_month env < k) (map fst bd)"
proof (cases "map_of bd (now_month env)")
  case None
  then have "now_month env \<notin> fst ` set bd" by (simp add: map_of_eq_None_iff)
  with None assms show ?thesis
    by (auto simp: get_budget_status_def Let_def zero_entry_def ledger_ok_def map_add_def
        split: option.splits)
next
  case (Some e)
  then have "now_month env \<in> fst ` set bd" by (metis map_of_eq_None_iff option.distinct(1))
  with Some assms show ?thesis
    by (auto simp: get_budget_status_def Let_def)
qed

lemma update_budget_no_directory:
  assumes "budget_file w = No_directory"
  shows "update_budget r env c w = Inl (FileNotFoundError budget_file_name)"
  using assms by (simp add: update_budget_def write_budget_file_def get_budget_status_def Let_def)

lemma update_budget_Inr:
  assumes "get_budget_status r env w = Inr st" and "budget_file w \<noteq> No_directory"
  shows "update_budget r env c w =
     Inr (w\<lparr> budget_file :=
               Valid (restrict_to (last3 (sort (map fst (budget_data st))))
                 (modify (current_month st) (\<lambda>e. e\<lparr> requests := requests e + 1 \<rparr>)
                   (modify (current_month st) (\<lambda>e. e\<lparr> spent := fadd (spent e) c \<rparr>) (budget_data st)))),
             trace := trace w @
               [Ledger_write (restrict_to (last3 (sort (map fst (budget_data st))))
                 (modify (current_month st) (\<lambda>e. e\<lparr> requests := requests e + 1 \<rparr>)
                   (modify (current_month st) (\<lambda>e. e\<lparr> spent := fadd (spent e) c \<rparr>) (budget_data st))))] \<rparr>)"
  using assms
  by (simp add: update_budget_def write_budget_file_def Let_def emit_def map_fst_modify
      split: ledger_file.splits)

lemmas ex_defs = ex_router_def ex_router_key_def ex_env_up_def ex_env_down_def
  ex_env_local_down_def ex_env_paid_down_def ex_env_long_def
  ex_world_def ex_world_nodir_def ex_router_sql_def ex_world_exhausted_def ex_world_low_def ex_world_four_def ex_world_future_def
  init_router_def default_config_def

lemma ex_status_fresh:
  "get_budget_status ex_router_key ex_env_up ex_world
     = Inr \<lparr> current_month = ''2025-06'', status_spent = 0, status_requests = 0,
             budget = 5, remaining = 5,
             budget_data = [(''2025-06'', \<lparr> spent = 0, requests = 0 \<rparr>)] \<rparr>"
  by (simp add: get_budget_status_def Let_def zero_entry_def ex_defs float_examples)

lemma ex_keywords:
  "ollama_keywords (config ex_router_key) = ollama_keywords default_config"
  "escalation_keywords (config ex_router_key) = escalation_keywords default_config"
  "ollama_keywords (config ex_router) = ollama_keywords default_config"
  "escalation_keywords (config ex_router) = escalation_keywords default_config"
  "ollama_keywords default_config =
     [''code'', ''refactor'', ''test'', ''debug'', ''simple'', ''function'',
      ''fix'', ''error'', ''variable'', ''loop'', ''class'']"
  "escalation_keywords default_config =
     [''architecture'', ''design'', ''system'', ''complex'', ''ASPICE'',
      ''compliance'', ''review'', ''analysis'', ''strategy'', ''planning'']"
  by (simp_all add: ex_router_key_def ex_router_def init_router_def default_config_def)

lemma ex_lower:
  "lower ''design the system'' = ''design the system''"
  "lower ''fix this bug'' = ''fix this bug''"
  "lower ''Fix the System Architecture'' = ''fix the system architecture''"
  "lower ''design the architecture'' = ''design the architecture''"
  "lower ''aspice audit'' = ''aspice audit''"
  "lower ''ASPICE'' = ''aspice''"
  "lower '''' = ''''"
  by code_simp+

lemma lower_append: "lower (a @ b) = lower a @ lower b"
  by (simp add: lower_def)

lemma str_in_lower: "str_in k p \<Longrightarrow> str_in (lower k) (lower p)"
  unfolding str_in_iff by (metis lower_append)

lemma lowercase_keyword_matches:
  "lower keyword = keyword \<Longrightarrow> keyword_matches keyword prompt = matches_ignoring_case keyword prompt"
  by (simp add: keyword_matches_def matches_ignoring_case_def)

section \<open>Facts about the backend clients\<close>

lemma call_ollama_eq:
  "call_ollama r env prompt mdl w =
     (case ollama_post env mdl prompt of
        Reply answer \<Rightarrow> Success answer (''ollama-'' @ mdl) 0 0 0
      | Raise msg \<Rightarrow> Failure msg True,
      w\<lparr> trace := trace w @ [Enter_call_ollama prompt, Http_post mdl prompt] \<rparr>)"
  by (simp add: call_ollama_def emit_def Let_def split: reply.splits)

lemma call_claude_failed:
  assumes "\<not> success (fst (call_claude r env prompt w))"
  shows "get_fallback (fst (call_claude r env prompt w))
     \<and> snd (call_claude r env prompt w)
         = w\<lparr> trace := trace w @ Enter_call_claude prompt
              # (if claude_client r then [Messages_create prompt] else []) \<rparr>"
proof (cases "claude_client r")
  case False
  then show ?thesis by (simp add: call_claude_def emit_def)
next
  case True
  show ?thesis
  proof (cases "claude_create env prompt")
    case (Raise msg)
    with True show ?thesis by (simp add: call_claude_def emit_def)
  next
    case (Reply answer)
    show ?thesis
    proof (cases "get_budget_status r env w")
      case (Inl e)
      with True Reply show ?thesis
        by (simp add: call_claude_def emit_def update_budget_def write_budget_file_def Let_def)
    next
      case (Inr st)
      with True Reply assms show ?thesis
        by (simp add: call_claude_def emit_def update_budget_def write_budget_file_def Let_def
            split: ledger_file.splits)
    qed
  qed
qed

lemma ex_status_any:
  assumes "now_month env = ''2025-06''" and "monthly_budget (config r) = 5"
  shows "get_budget_status r env ex_world
     = Inr \<lparr> current_month = ''2025-06'', status_spent = 0, status_requests = 0,
             budget = 5, remaining = 5,
             budget_data = [(''2025-06'', \<lparr> spent = 0, requests = 0 \<rparr>)] \<rparr>"
  using assms
  by (simp add: get_budget_status_def Let_def zero_entry_def ex_world_def float_examples)

lemma ex_lower_aspice: "lower ''ASPICE audit'' = ''aspice audit''"
  by code_simp

lemma ex_decisions:
  assumes "now_month env = ''2025-06''"
  shows "should_escalate_to_claude ex_router_key env ex_world ''design the system''
           = Inr (True, Complex_task)"
    and "should_escalate_to_claude ex_router_key env ex_world ''fix this bug''
           = Inr (False, Simple_task)"
    and "should_escalate_to_claude ex_router env ex_world '''' = Inr (False, Standard_task)"
    and "should_escalate_to_claude ex_router_key env ex_world ''aspice audit''
           = Inr (False, Standard_task)"
    and "should_escalate_to_claude ex_router_key env ex_world ''ASPICE audit''
           = Inr (False, Standard_task)"
  using assms
  by (simp_all add: should_escalate_to_claude_def ex_status_any ex_lower ex_lower_aspice any_keyword_in_def
      ex_keywords ex_router_key_def ex_router_def init_router_def default_config_def)

lemma any_keyword_in_empty: "any_keyword_in keywords '''' \<longleftrightarrow> '''' \<in> set keywords"
  by (auto simp: any_keyword_in_def list_ex_iff)

text \<open>No lowered prompt holds a capital letter, so the default keyword \<open>ASPICE\<close> is never found.\<close>

lemma aspice_never_matches: "\<not> keyword_matches ''ASPICE'' prompt"
proof
  assume "keyword_matches ''ASPICE'' prompt"
  then have "set ''ASPICE'' \<subseteq> set (lower prompt)"
    unfolding keyword_matches_def by (rule str_in_set)
  then have "CHR ''A'' \<in> set (lower prompt)" by simp
  with no_capital_A_in_lower show False by blast
qed

lemma cost_examples:
  "fadd (fmul (float_of_int (int 100)) (round_double (3 / 1000000)))
        (fmul (float_of_int (int 50)) (round_double (15 / 1000000)))
     = 2421135159674379 / 2 ^ 61"
  "round_double (105 / 100000) = 4842270319348757 / 2 ^ 62"
  "claude_cost (config ex_router_key) 100 50 = ex_cost"
  "fadd 0 ex_cost = ex_cost"
  "ex_cost \<noteq> round_double (105 / 100000)"
  "ex_cost \<noteq> 105 / 100000"
  by code_simp+

lemma ex_update_budget_cost:
  "update_budget ex_router_key ex_env_long ex_cost
     (ex_world\<lparr> trace := trace ex_world @
        [Enter_call_claude (replicate 400 (CHR ''a'')),
         Messages_create (replicate 400 (CHR ''a''))] \<rparr>)
   = Inr \<lparr> budget_file = Valid [(''2025-06'', \<lparr> spent = ex_cost, requests = 1 \<rparr>)],
           trace = [Enter_call_claude (replicate 400 (CHR ''a'')),
                    Messages_create (replicate 400 (CHR ''a'')),
                    Ledger_write [(''2025-06'', \<lparr> spent = ex_cost, requests = 1 \<rparr>)]] \<rparr>"
proof -
  have b: "monthly_budget (config ex_router_key) = 5" by (simp add: ex_defs)
  show ?thesis
    by (simp add: update_budget_def write_budget_file_def get_budget_status_def Let_def emit_def last3_def
        restrict_to_def zero_entry_def b float_examples cost_examples ex_world_def ex_env_long_def)
qed

lemma get_budget_status_file:
  "budget_file w' = budget_file w \<Longrightarrow> get_budget_status r env w' = get_budget_status r env w"
  by (simp add: get_budget_status_def)

lemma ex_nodir_status:
  "get_budget_status r env ex_world_nodir = get_budget_status r env ex_world"
  by (simp add: get_budget_status_def ex_world_nodir_def ex_world_def)

lemma ex_nodir_decision:
  "should_escalate_to_claude r env ex_world_nodir prompt
     = should_escalate_to_claude r env ex_world prompt"
  by (simp add: should_escalate_to_claude_def ex_nodir_status)

lemma ex_lower_sql: "lower ''SQL design'' = ''sql design''"
  by code_simp

section \<open>The claims\<close>

text \<open>
  C5. The claim speaks of every prior state, and the router as it is constructed
  everywhere in the repository (default \<^verbatim>\<open>config_path\<close>) is in the state
  \<open>No_directory\<close> unless someone has made the relative directory by hand. There
  \<^verbatim>\<open>get_budget_status\<close> works, but \<^verbatim>\<open>update_budget\<close> raises
  \<^verbatim>\<open>FileNotFoundError\<close> when it opens the file: nothing is written, and inside
  \<^verbatim>\<open>call_claude\<close> the exception turns an answered, billable call into a failure
  without any record of its cost.
\<close>

theorem update_budget_without_directory:
  "budget_file ex_world_nodir = No_directory
   \<and> get_budget_status ex_router_key ex_env_up ex_world_nodir
     = Inr \<lparr> current_month = ''2025-06'', status_spent = 0, status_requests = 0,
             budget = 5, remaining = 5,
             budget_data = [(''2025-06'', \<lparr> spent = 0, requests = 0 \<rparr>)] \<rparr>
   \<and> update_budget ex_router_key ex_env_up (1 / 8) ex_world_nodir
     = Inl (FileNotFoundError ''~/ai-config/budget_tracker.json'')
   \<and> call_claude ex_router_key ex_env_up ''design the system'' ex_world_nodir
     = (Failure (str_of_error (FileNotFoundError ''~/ai-config/budget_tracker.json'')) True,
        \<lparr> budget_file = No_directory,
          trace = [Enter_call_claude ''design the system'',
                   Messages_create ''design the system''] \<rparr>)"
proof -
  have key: "claude_client ex_router_key" "monthly_budget (config ex_router_key) = 5"
    by (simp_all add: ex_defs)
  have m: "now_month ex_env_up = ''2025-06''" by (simp add: ex_env_up_def)
  have d: "budget_file ex_world_nodir = No_directory" by (simp add: ex_world_nodir_def)
  have st: "get_budget_status ex_router_key ex_env_up ex_world_nodir
     = Inr \<lparr> current_month = ''2025-06'', status_spent = 0, status_requests = 0,
             budget = 5, remaining = 5,
             budget_data = [(''2025-06'', \<lparr> spent = 0, requests = 0 \<rparr>)] \<rparr>"
    using ex_status_any [OF m key(2)] by (simp add: ex_nodir_status)
  have u: "update_budget ex_router_key ex_env_up (1 / 8) ex_world_nodir
     = Inl (FileNotFoundError ''~/ai-config/budget_tracker.json'')"
    using update_budget_no_directory [OF d] by (simp add: budget_file_name_def)
  have c: "call_claude ex_router_key ex_env_up ''design the system'' ex_world_nodir
     = (Failure (str_of_error (FileNotFoundError ''~/ai-config/budget_tracker.json'')) True,
        \<lparr> budget_file = No_directory,
          trace = [Enter_call_claude ''design the system'',
                   Messages_create ''design the system''] \<rparr>)"
    using key(1)
    by (simp add: call_claude_def Let_def emit_def update_budget_no_directory
        budget_file_name_def ex_env_up_def ex_world_nodir_def)
  from d st u c show ?thesis by blast
qed

text \<open>
  What \<^verbatim>\<open>update_budget\<close> does when the budget file can be opened for writing. For every
  cost \<open>c\<close> and every readable ledger with distinct month keys,
  \<^verbatim>\<open>update_budget(c)\<close> writes the budget file once, with the whole new record. The
  current month's entry of that record has the previous \<open>spent\<close> plus \<open>c\<close> (a float
  addition) and the previous \<open>requests\<close> plus one, every other entry is as it was, and
  the keys written are the last three of the sorted keys: at most three of them, and
  every key that was dropped is less than every key that was kept. The current month is
  among the keys written when fewer than three keys of the ledger are greater than it.
\<close>

theorem update_budget_adds_prunes_persists:
  assumes ld: "load_budget_file (budget_file w) = Inr bd"
    and ok: "ledger_ok bd"
    and dir: "budget_file w \<noteq> No_directory"
  shows "\<exists>st bd'.
      get_budget_status r env w = Inr st
    \<and> update_budget r env c w
        = Inr (w\<lparr> budget_file := Valid bd', trace := trace w @ [Ledger_write bd'] \<rparr>)
    \<and> map fst bd' = last3 (sort (map fst (budget_data st)))
    \<and> (\<forall>k \<in> set (map fst bd').
          map_of bd' k =
            (if k = now_month env
             then Some \<lparr> spent = fadd (status_spent st) c, requests = status_requests st + 1 \<rparr>
             else map_of bd k))
    \<and> length bd' = min 3 (length (budget_data st))
    \<and> (\<forall>k \<in> set (map fst (budget_data st)) - set (map fst bd').
          \<forall>k' \<in> set (map fst bd'). k < k')
    \<and> (length (filter (\<lambda>k. now_month env < k) (map fst bd)) < 3
          \<longrightarrow> now_month env \<in> set (map fst bd'))"
proof -
  from get_budget_status_Inr [OF ld, of r env] obtain st where
    st: "get_budget_status r env w = Inr st"
    and cm: "current_month st = now_month env"
    and cur: "map_of (budget_data st) (now_month env)
         = Some \<lparr> spent = status_spent st, requests = status_requests st \<rparr>"
    and others: "\<forall>k. k \<noteq> now_month env \<longrightarrow> map_of (budget_data st) k = map_of bd k"
    and ok': "ledger_ok (budget_data st)"
    and later: "filter (\<lambda>k. now_month env < k) (map fst (budget_data st))
         = filter (\<lambda>k. now_month env < k) (map fst bd)"
    using ok by blast
  define bd2 where "bd2 =
    modify (current_month st) (\<lambda>e. e\<lparr> requests := requests e + 1 \<rparr>)
      (modify (current_month st) (\<lambda>e. e\<lparr> spent := fadd (spent e) c \<rparr>) (budget_data st))"
  define keep where "keep = last3 (sort (map fst (budget_data st)))"
  define bd' where "bd' = restrict_to keep bd2"
  have keys2: "map fst bd2 = map fst (budget_data st)"
    by (simp add: bd2_def map_fst_modify)
  have "set keep \<subseteq> set (map fst (budget_data st))"
    unfolding keep_def using set_last3 [of "sort (map fst (budget_data st))"] by simp
  then have sub: "set keep \<subseteq> fst ` set bd2"
    using keys2 by (metis list.set_map)
  have keys': "map fst bd' = keep"
    unfolding bd'_def using sub by (rule map_fst_restrict_to)
  have upd: "update_budget r env c w
        = Inr (w\<lparr> budget_file := Valid bd', trace := trace w @ [Ledger_write bd'] \<rparr>)"
    using update_budget_Inr [OF st dir, of c] by (simp add: bd'_def keep_def bd2_def)
  have entries: "\<forall>k \<in> set (map fst bd').
          map_of bd' k =
            (if k = now_month env
             then Some \<lparr> spent = fadd (status_spent st) c, requests = status_requests st + 1 \<rparr>
             else map_of bd k)"
  proof
    fix k assume "k \<in> set (map fst bd')"
    then have "k \<in> set keep" using keys' by simp
    then have "map_of bd' k = map_of bd2 k" by (simp add: bd'_def map_of_restrict_to)
    also have "\<dots> = (if k = now_month env
             then Some \<lparr> spent = fadd (status_spent st) c, requests = status_requests st + 1 \<rparr>
             else map_of bd k)"
      using cur others by (simp add: bd2_def map_of_modify cm)
    finally show "map_of bd' k = (if k = now_month env
             then Some \<lparr> spent = fadd (status_spent st) c, requests = status_requests st + 1 \<rparr>
             else map_of bd k)" .
  qed
  have len: "length bd' = min 3 (length (budget_data st))"
  proof -
    have "length bd' = length (map fst bd')" by simp
    also have "\<dots> = min 3 (length (budget_data st))"
      unfolding keys' by (simp add: keep_def length_last3)
    finally show ?thesis .
  qed
  have great: "\<forall>k \<in> set (map fst (budget_data st)) - set (map fst bd').
          \<forall>k' \<in> set (map fst bd'). k < k'"
    unfolding keys' keep_def
    using ok' by (intro last3_sort_greatest) (simp add: ledger_ok_def)
  have kept: "length (filter (\<lambda>k. now_month env < k) (map fst bd)) < 3
          \<longrightarrow> now_month env \<in> set (map fst bd')"
  proof
    assume "length (filter (\<lambda>k. now_month env < k) (map fst bd)) < 3"
    then have "length (filter (\<lambda>k. now_month env < k) (map fst (budget_data st))) < 3"
      using later by simp
    moreover have "now_month env \<in> set (map fst (budget_data st))"
      using cur by (metis list.set_map map_of_eq_None_iff option.distinct(1))
    ultimately show "now_month env \<in> set (map fst bd')"
      unfolding keys' keep_def by (intro current_month_kept)
  qed
  from st upd keys' entries len great kept show ?thesis
    unfolding keep_def by blast
qed


theorem update_budget_adds_prunes_persists_witness:
  "load_budget_file (budget_file ex_world_four)
     = Inr [(''2025-05'', \<lparr> spent = 1 / 2, requests = 3 \<rparr>),
            (''2025-03'', \<lparr> spent = 1, requests = 7 \<rparr>),
            (''2025-06'', \<lparr> spent = 1 / 4, requests = 2 \<rparr>),
            (''2025-04'', \<lparr> spent = 2, requests = 9 \<rparr>)]
   \<and> ledger_ok [(''2025-05'', \<lparr> spent = 1 / 2, requests = 3 \<rparr>),
            (''2025-03'', \<lparr> spent = 1, requests = 7 \<rparr>),
            (''2025-06'', \<lparr> spent = 1 / 4, requests = 2 \<rparr>),
            (''2025-04'', \<lparr> spent = 2, requests = 9 \<rparr>)]
   \<and> update_budget ex_router ex_env_up (1 / 8) ex_world_four
     = Inr \<lparr> budget_file =
               Valid [(''2025-04'', \<lparr> spent = 2, requests = 9 \<rparr>),
                      (''2025-05'', \<lparr> spent = 1 / 2, requests = 3 \<rparr>),
                      (''2025-06'', \<lparr> spent = 3 / 8, requests = 3 \<rparr>)],
             trace =
               [Ledger_write [(''2025-04'', \<lparr> spent = 2, requests = 9 \<rparr>),
                      (''2025-05'', \<lparr> spent = 1 / 2, requests = 3 \<rparr>),
                      (''2025-06'', \<lparr> spent = 3 / 8, requests = 3 \<rparr>)]] \<rparr>"
proof -
  let ?bd = "[(''2025-05'', \<lparr> spent = 1 / 2, requests = 3 \<rparr>),
            (''2025-03'', \<lparr> spent = 1, requests = 7 \<rparr>),
            (''2025-06'', \<lparr> spent = 1 / 4, requests = 2 \<rparr>),
            (''2025-04'', \<lparr> spent = 2, requests = (9::int) \<rparr>)]"
  let ?new = "[(''2025-04'', \<lparr> spent = 2, requests = 9 \<rparr>),
                      (''2025-05'', \<lparr> spent = 1 / 2, requests = 3 \<rparr>),
                      (''2025-06'', \<lparr> spent = 3 / 8, requests = (3::int) \<rparr>)]"
  have h1: "load_budget_file (budget_file ex_world_four) = Inr ?bd"
    by (simp add: ex_world_four_def)
  have h2: "ledger_ok ?bd" by (simp add: ledger_ok_def)
  have h3: "budget_file ex_world_four \<noteq> No_directory" by (simp add: ex_world_four_def)
  from update_budget_adds_prunes_persists [OF h1 h2 h3, of ex_router ex_env_up "1 / 8"]
  obtain bd' where upd: "update_budget ex_router ex_env_up (1 / 8) ex_world_four
      = Inr (ex_world_four\<lparr> budget_file := Valid bd',
               trace := trace ex_world_four @ [Ledger_write bd'] \<rparr>)"
    by blast
  have eval: "update_budget ex_router ex_env_up (1 / 8) ex_world_four
      = Inr \<lparr> budget_file = Valid ?new, trace = [Ledger_write ?new] \<rparr>"
    by (simp add: update_budget_def write_budget_file_def get_budget_status_def Let_def emit_def last3_def
        restrict_to_def ex_defs float_examples)
  from upd eval have "bd' = ?new" by (simp add: ex_world_four_def)
  with upd h1 h2 show ?thesis by (simp add: ex_world_four_def)
qed




text \<open>
  C9. A \<^verbatim>\<open>force_model\<close> that is neither \<^verbatim>\<open>"ollama"\<close> nor \<^verbatim>\<open>"claude"\<close> is ignored:
  the backend is chosen by \<^verbatim>\<open>should_escalate_to_claude\<close>, and \<^verbatim>\<open>route_request\<close>
  returns what it returns without a forced backend, with the same effects.
\<close>

theorem unknown_force_model_ignored:
  assumes "force_model \<noteq> ''ollama''" and "force_model \<noteq> ''claude''"
  shows "routing_decision r env w prompt (Some force_model)
           = should_escalate_to_claude r env w prompt
       \<and> routing_decision r env w prompt (Some force_model)
           = routing_decision r env w prompt None
       \<and> route_request r env prompt (Some force_model) w = route_request r env prompt None w"
  using assms by (simp add: route_request_def routing_decision_def)

theorem unknown_force_model_ignored_witness:
  "''Claude'' \<noteq> ''ollama'' \<and> ''Claude'' \<noteq> ''claude''
   \<and> routing_decision ex_router_key ex_env_up ex_world ''design the system'' (Some ''Claude'')
       = Inr (True, Complex_task)
   \<and> route_request ex_router_key ex_env_up ''design the system'' (Some ''Claude'') ex_world
       = route_request ex_router_key ex_env_up ''design the system'' None ex_world
   \<and> ''gpt'' \<noteq> ''ollama'' \<and> ''gpt'' \<noteq> ''claude''
   \<and> routing_decision ex_router_key ex_env_up ex_world ''fix this bug'' (Some ''gpt'')
       = Inr (False, Simple_task)
   \<and> route_request ex_router_key ex_env_up ''fix this bug'' (Some ''gpt'') ex_world
       = route_request ex_router_key ex_env_up ''fix this bug'' None ex_world"
proof -
  have a: "''Claude'' \<noteq> ''ollama''" "''Claude'' \<noteq> ''claude''" by simp_all
  have b: "''gpt'' \<noteq> ''ollama''" "''gpt'' \<noteq> ''claude''" by simp_all
  have e1: "should_escalate_to_claude ex_router_key ex_env_up ex_world ''design the system''
      = Inr (True, Complex_task)"
    by (simp add: should_escalate_to_claude_def ex_status_fresh ex_lower any_keyword_in_def
        ex_keywords)
  have e2: "should_escalate_to_claude ex_router_key ex_env_up ex_world ''fix this bug''
      = Inr (False, Simple_task)"
    by (simp add: should_escalate_to_claude_def ex_status_fresh ex_lower any_keyword_in_def
        ex_keywords)
  from unknown_force_model_ignored [OF a, of ex_router_key ex_env_up ex_world "''design the system''"]
    unknown_force_model_ignored [OF b, of ex_router_key ex_env_up ex_world "''fix this bug''"]
    e1 e2 a b
  show ?thesis by simp
qed

text \<open>
  C3. With no forced backend and a readable ledger, for every prompt: when the remaining
  budget is at most 0 the decision is the local backend with reason "budget exhausted",
  and when it is positive and below 0.5 the decision is the local backend with reason
  "budget low". The prompt does not enter either answer, so neither its keywords nor
  its length are looked at.
\<close>

theorem budget_gate_before_keywords:
  assumes "get_budget_status r env w = Inr st"
  shows "(remaining st \<le> 0 \<longrightarrow>
            should_escalate_to_claude r env w prompt = Inr (False, Budget_exhausted)
          \<and> routing_decision r env w prompt None = Inr (False, Budget_exhausted))
       \<and> (0 < remaining st \<and> remaining st < 1 / 2 \<longrightarrow>
            should_escalate_to_claude r env w prompt = Inr (False, Budget_low)
          \<and> routing_decision r env w prompt None = Inr (False, Budget_low))"
  using assms by (simp add: should_escalate_to_claude_def routing_decision_def)

theorem budget_gate_before_keywords_witness:
  "get_budget_status ex_router_key ex_env_up ex_world_exhausted
     = Inr \<lparr> current_month = ''2025-06'', status_spent = 5, status_requests = 40,
             budget = 5, remaining = 0,
             budget_data = [(''2025-06'', \<lparr> spent = 5, requests = 40 \<rparr>)] \<rparr>
   \<and> should_escalate_to_claude ex_router_key ex_env_up ex_world_exhausted
        ''design the architecture'' = Inr (False, Budget_exhausted)
   \<and> routing_decision ex_router_key ex_env_up ex_world_exhausted
        ''design the architecture'' None = Inr (False, Budget_exhausted)
   \<and> get_budget_status ex_router_key ex_env_up ex_world_low
     = Inr \<lparr> current_month = ''2025-06'', status_spent = 19 / 4, status_requests = 38,
             budget = 5, remaining = 1 / 4,
             budget_data = [(''2025-06'', \<lparr> spent = 19 / 4, requests = 38 \<rparr>)] \<rparr>
   \<and> should_escalate_to_claude ex_router_key ex_env_up ex_world_low
        ''design the architecture'' = Inr (False, Budget_low)
   \<and> routing_decision ex_router_key ex_env_up ex_world_low
        ''design the architecture'' None = Inr (False, Budget_low)"
proof -
  have x: "get_budget_status ex_router_key ex_env_up ex_world_exhausted
     = Inr \<lparr> current_month = ''2025-06'', status_spent = 5, status_requests = 40,
             budget = 5, remaining = 0,
             budget_data = [(''2025-06'', \<lparr> spent = 5, requests = 40 \<rparr>)] \<rparr>"
    by (simp add: get_budget_status_def Let_def ex_defs float_examples)
  have l: "get_budget_status ex_router_key ex_env_up ex_world_low
     = Inr \<lparr> current_month = ''2025-06'', status_spent = 19 / 4, status_requests = 38,
             budget = 5, remaining = 1 / 4,
             budget_data = [(''2025-06'', \<lparr> spent = 19 / 4, requests = 38 \<rparr>)] \<rparr>"
    by (simp add: get_budget_status_def Let_def ex_defs float_examples)
  from budget_gate_before_keywords [OF x, of "''design the architecture''"]
    budget_gate_before_keywords [OF l, of "''design the architecture''"] x l
  show ?thesis by simp
qed

text \<open>
  The order of the checks. With no forced backend and a readable ledger, a prompt in
  which the keyword
  inspection finds a force-local keyword is routed to the local backend, whatever its
  length and whatever force-paid keywords it also holds; the reason is "simple task"
  unless a budget gate has answered first (and then the backend is local as well).
  The inspection finds every lower-case keyword (all default ones are) that the prompt
  contains, literally or ignoring case.
\<close>

theorem local_keyword_wins:
  assumes "get_budget_status r env w = Inr st"
    and "keyword \<in> set (ollama_keywords (config r))"
    and "keyword_matches keyword prompt
         \<or> lower keyword = keyword \<and> (matches_ignoring_case keyword prompt \<or> str_in keyword prompt)"
  shows "should_escalate_to_claude r env w prompt
           = Inr (False, if remaining st \<le> 0 then Budget_exhausted
                         else if remaining st < 1 / 2 then Budget_low
                         else Simple_task)
       \<and> routing_decision r env w prompt None = should_escalate_to_claude r env w prompt"
proof -
  have "keyword_matches keyword prompt"
    using assms(3) str_in_lower [of keyword prompt]
    by (auto simp: keyword_matches_def matches_ignoring_case_def)
  then have "any_keyword_in (ollama_keywords (config r)) (lower prompt)"
    using assms(2) any_keyword_in_iff by blast
  with assms(1) show ?thesis
    by (simp add: should_escalate_to_claude_def routing_decision_def)
qed

theorem local_keyword_wins_witness:
  "get_budget_status ex_router_key ex_env_up ex_world
     = Inr \<lparr> current_month = ''2025-06'', status_spent = 0, status_requests = 0,
             budget = 5, remaining = 5,
             budget_data = [(''2025-06'', \<lparr> spent = 0, requests = 0 \<rparr>)] \<rparr>
   \<and> ''fix'' \<in> set (ollama_keywords (config ex_router_key))
   \<and> keyword_matches ''fix'' (''Fix the System Architecture'' @ replicate 1000 (CHR ''!''))
   \<and> keyword_matches ''architecture'' (''Fix the System Architecture'' @ replicate 1000 (CHR ''!''))
   \<and> 1000 < length (''Fix the System Architecture'' @ replicate 1000 (CHR ''!''))
   \<and> should_escalate_to_claude ex_router_key ex_env_up ex_world
        (''Fix the System Architecture'' @ replicate 1000 (CHR ''!'')) = Inr (False, Simple_task)"
proof -
  let ?p = "''Fix the System Architecture'' @ replicate 1000 (CHR ''!'')"
  have lp: "lower ?p = ''fix the system architecture'' @ lower (replicate 1000 (CHR ''!''))"
    using ex_lower(3) by (simp add: lower_def)
  have k: "''fix'' \<in> set (ollama_keywords (config ex_router_key))"
    by (simp add: ex_keywords)
  have m: "keyword_matches ''fix'' ?p"
    unfolding keyword_matches_def lp by simp
  have m2: "keyword_matches ''architecture'' ?p"
    unfolding keyword_matches_def lp str_in_iff
    by (rule exI [of _ "''fix the system ''"], rule exI [of _ "lower (replicate 1000 (CHR ''!''))"]) simp
  have len: "1000 < length ?p" by simp
  from local_keyword_wins [OF ex_status_fresh k disjI1 [OF m]] ex_status_fresh k m m2 len
  show ?thesis by simp
qed


text \<open>
  C4. The claim holds for keywords without capitals only. A configured force-local
  keyword with a capital letter is never found, because the prompt is lowered and the
  keyword is not (the slip of C2): with \<^verbatim>\<open>ollama_keywords = ["SQL"]\<close> the prompt
  "SQL design", which contains the keyword literally, passes the force-local check,
  matches the force-paid keyword "design" and is routed to the paid backend.
\<close>

theorem capital_local_keyword_not_matched:
  "ollama_keywords (config ex_router_sql) = [''SQL'']
   \<and> str_in ''SQL'' ''SQL design''
   \<and> matches_ignoring_case ''SQL'' ''SQL design''
   \<and> \<not> keyword_matches ''SQL'' ''SQL design''
   \<and> should_escalate_to_claude ex_router_sql ex_env_up ex_world ''SQL design''
       = Inr (True, Complex_task)
   \<and> routing_decision ex_router_sql ex_env_up ex_world ''SQL design'' None
       = Inr (True, Complex_task)"
proof -
  have k: "ollama_keywords (config ex_router_sql) = [''SQL'']"
    "escalation_keywords (config ex_router_sql) = escalation_keywords default_config"
    "monthly_budget (config ex_router_sql) = 5"
    by (simp_all add: ex_defs)
  have m: "now_month ex_env_up = ''2025-06''" by (simp add: ex_env_up_def)
  have a: "str_in ''SQL'' ''SQL design''" by simp
  have b: "matches_ignoring_case ''SQL'' ''SQL design''"
    by (simp add: matches_ignoring_case_def ex_lower_sql) code_simp
  have c: "\<not> keyword_matches ''SQL'' ''SQL design''"
    by (simp add: keyword_matches_def ex_lower_sql)
  have d: "should_escalate_to_claude ex_router_sql ex_env_up ex_world ''SQL design''
       = Inr (True, Complex_task)"
    by (simp add: should_escalate_to_claude_def ex_status_any [OF m k(3)] ex_lower_sql
        any_keyword_in_def k ex_keywords)
  from k(1) a b c d show ?thesis by (simp add: routing_decision_def)
qed

text \<open>
  C6. Without a client (no credential configured) \<^verbatim>\<open>call_claude\<close> fails at once with
  \<^verbatim>\<open>fallback = True\<close>: no request is sent and the budget file is not written. Whenever
  \<^verbatim>\<open>call_claude\<close> fails, the result has \<^verbatim>\<open>fallback = True\<close>, the budget file is as
  before and the only effects are entering the client and, with a client, the one
  request. The budget file is written exactly when the call succeeds, once, after the
  request.
\<close>

theorem call_claude_failure_keeps_ledger:
  "(\<not> claude_client r \<longrightarrow>
      call_claude r env prompt w
        = (Failure ''Claude API key nicht konfiguriert'' True,
           w\<lparr> trace := trace w @ [Enter_call_claude prompt] \<rparr>))
   \<and> (\<not> success (fst (call_claude r env prompt w)) \<longrightarrow>
        get_fallback (fst (call_claude r env prompt w))
      \<and> budget_file (snd (call_claude r env prompt w)) = budget_file w
      \<and> trace (snd (call_claude r env prompt w))
          = trace w @ Enter_call_claude prompt
              # (if claude_client r then [Messages_create prompt] else []))
   \<and> (success (fst (call_claude r env prompt w)) \<longrightarrow>
        (\<exists>bd. budget_file (snd (call_claude r env prompt w)) = Valid bd
          \<and> trace (snd (call_claude r env prompt w))
              = trace w @ [Enter_call_claude prompt, Messages_create prompt, Ledger_write bd]))"
proof (cases "claude_client r")
  case False
  then show ?thesis by (simp add: call_claude_def emit_def)
next
  case True
  show ?thesis
  proof (cases "claude_create env prompt")
    case (Raise msg)
    with True show ?thesis by (simp add: call_claude_def emit_def)
  next
    case (Reply answer)
    show ?thesis
    proof (cases "get_budget_status r env w")
      case (Inl e)
      with True Reply show ?thesis
        by (simp add: call_claude_def emit_def update_budget_def write_budget_file_def Let_def)
    next
      case (Inr st)
      with True Reply show ?thesis
        by (cases "budget_file w")
           (simp_all add: call_claude_def emit_def update_budget_def write_budget_file_def Let_def)
    qed
  qed
qed

theorem call_claude_failure_keeps_ledger_witness:
  "\<not> claude_client ex_router
   \<and> call_claude ex_router ex_env_up ''design the system'' ex_world_low
       = (Failure ''Claude API key nicht konfiguriert'' True,
          \<lparr> budget_file = Valid [(''2025-06'', \<lparr> spent = 19 / 4, requests = 38 \<rparr>)],
            trace = [Enter_call_claude ''design the system''] \<rparr>)
   \<and> \<not> success (fst (call_claude ex_router_key ex_env_down ''design the system'' ex_world_low))
   \<and> fst (call_claude ex_router_key ex_env_down ''design the system'' ex_world_low)
       = Failure ''overloaded'' True
   \<and> budget_file (snd (call_claude ex_router_key ex_env_down ''design the system'' ex_world_low))
       = Valid [(''2025-06'', \<lparr> spent = 19 / 4, requests = 38 \<rparr>)]
   \<and> trace (snd (call_claude ex_router_key ex_env_down ''design the system'' ex_world_low))
       = [Enter_call_claude ''design the system'', Messages_create ''design the system'']
   \<and> \<not> success (fst (call_claude ex_router_key ex_env_up ''design the system''
         \<lparr> budget_file = Corrupt ''Expecting value'', trace = [] \<rparr>))
   \<and> fst (call_claude ex_router_key ex_env_up ''design the system''
         \<lparr> budget_file = Corrupt ''Expecting value'', trace = [] \<rparr>)
       = Failure ''Expecting value'' True
   \<and> budget_file (snd (call_claude ex_router_key ex_env_up ''design the system''
         \<lparr> budget_file = Corrupt ''Expecting value'', trace = [] \<rparr>))
       = Corrupt ''Expecting value''
   \<and> success (fst (call_claude ex_router_key ex_env_up ''design the system'' ex_world))
   \<and> (\<exists>bd. budget_file (snd (call_claude ex_router_key ex_env_up ''design the system'' ex_world))
         = Valid bd
       \<and> trace (snd (call_claude ex_router_key ex_env_up ''design the system'' ex_world))
         = [Enter_call_claude ''design the system'', Messages_create ''design the system'',
            Ledger_write bd])"
proof -
  let ?p = "''design the system''"
  let ?c = "\<lparr> budget_file = Corrupt ''Expecting value'', trace = [] \<rparr>"
  have nokey: "\<not> claude_client ex_router" by (simp add: ex_defs)
  have key: "claude_client ex_router_key" by (simp add: ex_defs)
  have f1: "fst (call_claude ex_router_key ex_env_down ?p ex_world_low) = Failure ''overloaded'' True"
    using key by (simp add: call_claude_def ex_env_down_def)
  have f2: "fst (call_claude ex_router_key ex_env_up ?p ?c) = Failure ''Expecting value'' True"
    using key
    by (simp add: call_claude_def ex_env_up_def update_budget_def write_budget_file_def get_budget_status_def emit_def)
  have s3: "success (fst (call_claude ex_router_key ex_env_up ?p ex_world))"
    using key
    by (simp add: call_claude_def ex_env_up_def update_budget_def write_budget_file_def get_budget_status_def emit_def
        ex_world_def Let_def)
  have n1: "\<not> success (fst (call_claude ex_router_key ex_env_down ?p ex_world_low))"
    by (simp add: f1)
  have n2: "\<not> success (fst (call_claude ex_router_key ex_env_up ?p ?c))"
    by (simp add: f2)
  from call_claude_failure_keeps_ledger [of ex_router ex_env_up ?p ex_world_low]
    call_claude_failure_keeps_ledger [of ex_router_key ex_env_down ?p ex_world_low]
    call_claude_failure_keeps_ledger [of ex_router_key ex_env_up ?p ?c]
    call_claude_failure_keeps_ledger [of ex_router_key ex_env_up ?p ex_world]
    nokey key f1 f2 s3 n1 n2
  show ?thesis by (simp add: ex_world_low_def ex_world_def)
qed


text \<open>
  C1 as stated fails: when the local backend is the one chosen and its call fails with
  \<^verbatim>\<open>fallback = True\<close>, \<^verbatim>\<open>route_request\<close> does not enter the paid client (the source
  prints "Kein Fallback verfuegbar" there) and returns the local failure, although here
  a client is configured and the paid backend would have answered.
\<close>

theorem fallback_from_local_counterexample:
  "claude_client ex_router_key
   \<and> routing_decision ex_router_key ex_env_local_down ex_world ''fix this bug'' None
       = Inr (False, Simple_task)
   \<and> route_request ex_router_key ex_env_local_down ''fix this bug'' None ex_world
       = (Inr \<lparr> result = Failure ''connection refused'' True,
                budget_status =
                  \<lparr> current_month = ''2025-06'', status_spent = 0, status_requests = 0,
                    budget = 5, remaining = 5,
                    budget_data = [(''2025-06'', \<lparr> spent = 0, requests = 0 \<rparr>)] \<rparr>,
                routing_reason = Simple_task \<rparr>,
          \<lparr> budget_file = Missing,
            trace = [Enter_call_ollama ''fix this bug'', Http_post ''mistral'' ''fix this bug''] \<rparr>)
   \<and> success (fst (call_claude ex_router_key ex_env_local_down ''fix this bug'' ex_world))"
proof -
  have key: "claude_client ex_router_key" "monthly_budget (config ex_router_key) = 5"
    by (simp_all add: ex_defs)
  have m: "now_month ex_env_local_down = ''2025-06''" by (simp add: ex_env_local_down_def)
  have d: "routing_decision ex_router_key ex_env_local_down ex_world ''fix this bug'' None
       = Inr (False, Simple_task)"
    by (simp add: routing_decision_def ex_decisions [OF m])
  have st: "get_budget_status ex_router_key ex_env_local_down
      (ex_world\<lparr> trace := trace ex_world @
         [Enter_call_ollama ''fix this bug'', Http_post ''mistral'' ''fix this bug''] \<rparr>)
     = Inr \<lparr> current_month = ''2025-06'', status_spent = 0, status_requests = 0,
             budget = 5, remaining = 5,
             budget_data = [(''2025-06'', \<lparr> spent = 0, requests = 0 \<rparr>)] \<rparr>"
    using ex_status_any [OF m key(2)] by simp
  have rr: "route_request ex_router_key ex_env_local_down ''fix this bug'' None ex_world
       = (Inr \<lparr> result = Failure ''connection refused'' True,
                budget_status =
                  \<lparr> current_month = ''2025-06'', status_spent = 0, status_requests = 0,
                    budget = 5, remaining = 5,
                    budget_data = [(''2025-06'', \<lparr> spent = 0, requests = 0 \<rparr>)] \<rparr>,
                routing_reason = Simple_task \<rparr>,
          \<lparr> budget_file = Missing,
            trace = [Enter_call_ollama ''fix this bug'', Http_post ''mistral'' ''fix this bug''] \<rparr>)"
    using st
    by (simp add: route_request_def d dispatch_def call_ollama_eq)
       (simp add: ex_env_local_down_def ex_world_def)
  have s: "success (fst (call_claude ex_router_key ex_env_local_down ''fix this bug'' ex_world))"
    using key
    by (simp add: call_claude_def ex_env_local_down_def update_budget_def write_budget_file_def get_budget_status_def
        emit_def ex_world_def Let_def)
  from key(1) d rr s show ?thesis by simp
qed

text \<open>
  C1, amended. Whenever the routing decision is made: if the paid backend is chosen and
  its call fails (for whatever reason: no client, an exception of the API, an exception
  of reading or writing the budget file; the failure always carries
  \<^verbatim>\<open>fallback = True\<close>), the local client is entered exactly once, after the paid one,
  and nothing else is called. If the local backend is chosen, the local client is entered
  exactly once and the paid client is not entered, whether the local call succeeds or
  fails. In both cases the budget file is left as it was, and what
  \<^verbatim>\<open>route_request\<close> returns is the local client's result, success or failure, with the
  budget status and the reason attached; when the budget file cannot be read at that
  point, \<^verbatim>\<open>route_request\<close> raises the reader's exception after the calls and returns
  no result.
\<close>

theorem fallback_one_hop_paid_to_local:
  assumes dec: "routing_decision r env w prompt force_model = Inr (use_claude, reason)"
  shows "(use_claude \<and> \<not> success (fst (call_claude r env prompt w)) \<longrightarrow>
            get_fallback (fst (call_claude r env prompt w))
          \<and> trace (snd (route_request r env prompt force_model w))
              = trace w @ Enter_call_claude prompt
                  # (if claude_client r then [Messages_create prompt] else [])
                  @ [Enter_call_ollama prompt, Http_post ''mistral'' prompt]
          \<and> budget_file (snd (route_request r env prompt force_model w)) = budget_file w
          \<and> fst (route_request r env prompt force_model w)
              = (case get_budget_status r env w of
                   Inl e \<Rightarrow> Inl e
                 | Inr st \<Rightarrow>
                     Inr \<lparr> result = fst (call_ollama r env prompt ''mistral''
                                          (snd (call_claude r env prompt w))),
                           budget_status = st, routing_reason = reason \<rparr>))
       \<and> (\<not> use_claude \<longrightarrow>
            trace (snd (route_request r env prompt force_model w))
              = trace w @ [Enter_call_ollama prompt, Http_post ''mistral'' prompt]
          \<and> budget_file (snd (route_request r env prompt force_model w)) = budget_file w
          \<and> fst (route_request r env prompt force_model w)
              = (case get_budget_status r env w of
                   Inl e \<Rightarrow> Inl e
                 | Inr st \<Rightarrow>
                     Inr \<lparr> result = fst (call_ollama r env prompt ''mistral'' w),
                           budget_status = st, routing_reason = reason \<rparr>))"
proof (intro conjI impI)
  assume a: "use_claude \<and> \<not> success (fst (call_claude r env prompt w))"
  define res where "res = fst (call_claude r env prompt w)"
  define w1 where "w1 = snd (call_claude r env prompt w)"
  define w2 where "w2 = snd (call_ollama r env prompt ''mistral'' w1)"
  have cc: "call_claude r env prompt w = (res, w1)" by (simp add: res_def w1_def)
  from a call_claude_failed [of r env prompt w]
  have fb: "get_fallback res"
    and w1: "w1 = w\<lparr> trace := trace w @ Enter_call_claude prompt
              # (if claude_client r then [Messages_create prompt] else []) \<rparr>"
    by (simp_all add: res_def w1_def)
  have nres: "\<not> success res" using a by (simp add: res_def)
  show "get_fallback (fst (call_claude r env prompt w))" using fb by (simp add: res_def)
  have disp: "dispatch r env prompt use_claude w = call_ollama r env prompt ''mistral'' w1"
    using a fb nres by (simp add: dispatch_def cc)
  have w2: "w2 = w\<lparr> trace := trace w @ Enter_call_claude prompt
              # (if claude_client r then [Messages_create prompt] else [])
              @ [Enter_call_ollama prompt, Http_post ''mistral'' prompt] \<rparr>"
    by (simp add: w2_def call_ollama_eq w1)
  have st2: "get_budget_status r env w2 = get_budget_status r env w"
    by (rule get_budget_status_file) (simp add: w2)
  have rr: "route_request r env prompt force_model w
      = (case get_budget_status r env w of
           Inl e \<Rightarrow> (Inl e, w2)
         | Inr st \<Rightarrow>
             (Inr \<lparr> result = fst (call_ollama r env prompt ''mistral'' w1),
                    budget_status = st, routing_reason = reason \<rparr>, w2))"
    using dec disp st2 by (simp add: route_request_def case_prod_beta w2_def split: sum.splits)
  show "trace (snd (route_request r env prompt force_model w))
              = trace w @ Enter_call_claude prompt
                  # (if claude_client r then [Messages_create prompt] else [])
                  @ [Enter_call_ollama prompt, Http_post ''mistral'' prompt]"
    unfolding rr by (simp add: w2 split: sum.splits)
  show "budget_file (snd (route_request r env prompt force_model w)) = budget_file w"
    unfolding rr by (simp add: w2 split: sum.splits)
  show "fst (route_request r env prompt force_model w)
              = (case get_budget_status r env w of
                   Inl e \<Rightarrow> Inl e
                 | Inr st \<Rightarrow>
                     Inr \<lparr> result = fst (call_ollama r env prompt ''mistral''
                                          (snd (call_claude r env prompt w))),
                           budget_status = st, routing_reason = reason \<rparr>)"
    unfolding rr by (simp add: w1_def split: sum.splits)
next
  assume a: "\<not> use_claude"
  define w2 where "w2 = snd (call_ollama r env prompt ''mistral'' w)"
  have disp: "dispatch r env prompt use_claude w = call_ollama r env prompt ''mistral'' w"
    using a by (simp add: dispatch_def)
  have w2: "w2 = w\<lparr> trace := trace w @ [Enter_call_ollama prompt, Http_post ''mistral'' prompt] \<rparr>"
    by (simp add: w2_def call_ollama_eq)
  have st2: "get_budget_status r env w2 = get_budget_status r env w"
    by (rule get_budget_status_file) (simp add: w2)
  have rr: "route_request r env prompt force_model w
      = (case get_budget_status r env w of
           Inl e \<Rightarrow> (Inl e, w2)
         | Inr st \<Rightarrow>
             (Inr \<lparr> result = fst (call_ollama r env prompt ''mistral'' w),
                    budget_status = st, routing_reason = reason \<rparr>, w2))"
    using dec disp st2 by (simp add: route_request_def case_prod_beta w2_def split: sum.splits)
  show "trace (snd (route_request r env prompt force_model w))
              = trace w @ [Enter_call_ollama prompt, Http_post ''mistral'' prompt]"
    unfolding rr by (simp add: w2 split: sum.splits)
  show "budget_file (snd (route_request r env prompt force_model w)) = budget_file w"
    unfolding rr by (simp add: w2 split: sum.splits)
  show "fst (route_request r env prompt force_model w)
              = (case get_budget_status r env w of
                   Inl e \<Rightarrow> Inl e
                 | Inr st \<Rightarrow>
                     Inr \<lparr> result = fst (call_ollama r env prompt ''mistral'' w),
                           budget_status = st, routing_reason = reason \<rparr>)"
    unfolding rr by (simp split: sum.splits)
qed

theorem fallback_one_hop_paid_to_local_witness:
  "routing_decision ex_router_key ex_env_paid_down ex_world ''design the system'' None
       = Inr (True, Complex_task)
   \<and> \<not> success (fst (call_claude ex_router_key ex_env_paid_down ''design the system'' ex_world))
   \<and> route_request ex_router_key ex_env_paid_down ''design the system'' None ex_world
       = (Inr \<lparr> result = Success ''local answer'' ''ollama-mistral'' 0 0 0,
                budget_status =
                  \<lparr> current_month = ''2025-06'', status_spent = 0, status_requests = 0,
                    budget = 5, remaining = 5,
                    budget_data = [(''2025-06'', \<lparr> spent = 0, requests = 0 \<rparr>)] \<rparr>,
                routing_reason = Complex_task \<rparr>,
          \<lparr> budget_file = Missing,
            trace = [Enter_call_claude ''design the system'', Messages_create ''design the system'',
                     Enter_call_ollama ''design the system'',
                     Http_post ''mistral'' ''design the system''] \<rparr>)
   \<and> routing_decision ex_router_key ex_env_up
         \<lparr> budget_file = Corrupt ''Expecting value'', trace = [] \<rparr>
         ''design the system'' (Some ''claude'')
       = Inr (True, Forced_claude)
   \<and> \<not> success (fst (call_claude ex_router_key ex_env_up ''design the system''
         \<lparr> budget_file = Corrupt ''Expecting value'', trace = [] \<rparr>))
   \<and> route_request ex_router_key ex_env_up ''design the system'' (Some ''claude'')
         \<lparr> budget_file = Corrupt ''Expecting value'', trace = [] \<rparr>
       = (Inl (JSONDecodeError ''Expecting value''),
          \<lparr> budget_file = Corrupt ''Expecting value'',
            trace = [Enter_call_claude ''design the system'', Messages_create ''design the system'',
                     Enter_call_ollama ''design the system'',
                     Http_post ''mistral'' ''design the system''] \<rparr>)
   \<and> routing_decision ex_router_key ex_env_up ex_world_nodir ''design the system'' None
       = Inr (True, Complex_task)
   \<and> \<not> success (fst (call_claude ex_router_key ex_env_up ''design the system'' ex_world_nodir))
   \<and> route_request ex_router_key ex_env_up ''design the system'' None ex_world_nodir
       = (Inr \<lparr> result = Success ''local answer'' ''ollama-mistral'' 0 0 0,
                budget_status =
                  \<lparr> current_month = ''2025-06'', status_spent = 0, status_requests = 0,
                    budget = 5, remaining = 5,
                    budget_data = [(''2025-06'', \<lparr> spent = 0, requests = 0 \<rparr>)] \<rparr>,
                routing_reason = Complex_task \<rparr>,
          \<lparr> budget_file = No_directory,
            trace = [Enter_call_claude ''design the system'', Messages_create ''design the system'',
                     Enter_call_ollama ''design the system'',
                     Http_post ''mistral'' ''design the system''] \<rparr>)
   \<and> routing_decision ex_router_key ex_env_local_down ex_world ''fix this bug'' None
       = Inr (False, Simple_task)
   \<and> route_request ex_router_key ex_env_local_down ''fix this bug'' None ex_world
       = (Inr \<lparr> result = Failure ''connection refused'' True,
                budget_status =
                  \<lparr> current_month = ''2025-06'', status_spent = 0, status_requests = 0,
                    budget = 5, remaining = 5,
                    budget_data = [(''2025-06'', \<lparr> spent = 0, requests = 0 \<rparr>)] \<rparr>,
                routing_reason = Simple_task \<rparr>,
          \<lparr> budget_file = Missing,
            trace = [Enter_call_ollama ''fix this bug'', Http_post ''mistral'' ''fix this bug''] \<rparr>)"
proof -
  let ?p = "''design the system''"
  let ?c = "\<lparr> budget_file = Corrupt ''Expecting value'', trace = [] \<rparr>"
  have key: "claude_client ex_router_key" "monthly_budget (config ex_router_key) = 5"
    by (simp_all add: ex_defs)
  have m1: "now_month ex_env_paid_down = ''2025-06''" by (simp add: ex_env_paid_down_def)
  have m2: "now_month ex_env_local_down = ''2025-06''" by (simp add: ex_env_local_down_def)
  have m3: "now_month ex_env_up = ''2025-06''" by (simp add: ex_env_up_def)
  note st1 = ex_status_any [OF m1 key(2)]
  note st2 = ex_status_any [OF m2 key(2)]
  have st3: "get_budget_status ex_router_key ex_env_up ex_world_nodir
     = Inr \<lparr> current_month = ''2025-06'', status_spent = 0, status_requests = 0,
             budget = 5, remaining = 5,
             budget_data = [(''2025-06'', \<lparr> spent = 0, requests = 0 \<rparr>)] \<rparr>"
    using ex_status_any [OF m3 key(2)] by (simp add: ex_nodir_status)
  have st4: "get_budget_status ex_router_key ex_env_up ?c = Inl (JSONDecodeError ''Expecting value'')"
    by (simp add: get_budget_status_def)
  have d1: "routing_decision ex_router_key ex_env_paid_down ex_world ?p None
       = Inr (True, Complex_task)"
    by (simp add: routing_decision_def ex_decisions [OF m1])
  have d2: "routing_decision ex_router_key ex_env_local_down ex_world ''fix this bug'' None
       = Inr (False, Simple_task)"
    by (simp add: routing_decision_def ex_decisions [OF m2])
  have d3: "routing_decision ex_router_key ex_env_up ex_world_nodir ?p None
       = Inr (True, Complex_task)"
    by (simp add: routing_decision_def ex_nodir_decision ex_decisions [OF m3])
  have d4: "routing_decision ex_router_key ex_env_up ?c ?p (Some ''claude'')
       = Inr (True, Forced_claude)"
    by (simp add: routing_decision_def)
  have f1: "fst (call_claude ex_router_key ex_env_paid_down ?p ex_world)
       = Failure ''overloaded'' True"
    using key by (simp add: call_claude_def ex_env_paid_down_def)
  have f3: "\<not> success (fst (call_claude ex_router_key ex_env_up ?p ex_world_nodir))"
    using key(1)
    by (simp add: call_claude_def Let_def emit_def update_budget_no_directory
        ex_env_up_def ex_world_nodir_def)
  have f4: "\<not> success (fst (call_claude ex_router_key ex_env_up ?p ?c))"
    using key(1)
    by (simp add: call_claude_def ex_env_up_def update_budget_def get_budget_status_def emit_def)
  have n1: "\<not> success (fst (call_claude ex_router_key ex_env_paid_down ?p ex_world))"
    by (simp add: f1)
  note t1 = fallback_one_hop_paid_to_local [OF d1]
  note t2 = fallback_one_hop_paid_to_local [OF d2]
  note t3 = fallback_one_hop_paid_to_local [OF d3]
  note t4 = fallback_one_hop_paid_to_local [OF d4]
  have r1: "route_request ex_router_key ex_env_paid_down ?p None ex_world
       = (Inr \<lparr> result = Success ''local answer'' ''ollama-mistral'' 0 0 0,
                budget_status =
                  \<lparr> current_month = ''2025-06'', status_spent = 0, status_requests = 0,
                    budget = 5, remaining = 5,
                    budget_data = [(''2025-06'', \<lparr> spent = 0, requests = 0 \<rparr>)] \<rparr>,
                routing_reason = Complex_task \<rparr>,
          \<lparr> budget_file = Missing,
            trace = [Enter_call_claude ?p, Messages_create ?p,
                     Enter_call_ollama ?p, Http_post ''mistral'' ?p] \<rparr>)"
    using t1 n1 key(1) st1
    by (intro prod_eqI world.equality)
       (simp_all add: call_ollama_eq ex_env_paid_down_def ex_world_def)
  have r4: "route_request ex_router_key ex_env_up ?p (Some ''claude'') ?c
       = (Inl (JSONDecodeError ''Expecting value''),
          \<lparr> budget_file = Corrupt ''Expecting value'',
            trace = [Enter_call_claude ?p, Messages_create ?p,
                     Enter_call_ollama ?p, Http_post ''mistral'' ?p] \<rparr>)"
    using t4 f4 key(1) st4
    by (intro prod_eqI world.equality) simp_all
  have r3: "route_request ex_router_key ex_env_up ?p None ex_world_nodir
       = (Inr \<lparr> result = Success ''local answer'' ''ollama-mistral'' 0 0 0,
                budget_status =
                  \<lparr> current_month = ''2025-06'', status_spent = 0, status_requests = 0,
                    budget = 5, remaining = 5,
                    budget_data = [(''2025-06'', \<lparr> spent = 0, requests = 0 \<rparr>)] \<rparr>,
                routing_reason = Complex_task \<rparr>,
          \<lparr> budget_file = No_directory,
            trace = [Enter_call_claude ?p, Messages_create ?p,
                     Enter_call_ollama ?p, Http_post ''mistral'' ?p] \<rparr>)"
    using t3 f3 key(1) st3
    by (intro prod_eqI world.equality)
       (simp_all add: call_ollama_eq ex_env_up_def ex_world_nodir_def)
  have r2: "route_request ex_router_key ex_env_local_down ''fix this bug'' None ex_world
       = (Inr \<lparr> result = Failure ''connection refused'' True,
                budget_status =
                  \<lparr> current_month = ''2025-06'', status_spent = 0, status_requests = 0,
                    budget = 5, remaining = 5,
                    budget_data = [(''2025-06'', \<lparr> spent = 0, requests = 0 \<rparr>)] \<rparr>,
                routing_reason = Simple_task \<rparr>,
          \<lparr> budget_file = Missing,
            trace = [Enter_call_ollama ''fix this bug'', Http_post ''mistral'' ''fix this bug''] \<rparr>)"
    using t2 st2
    by (intro prod_eqI world.equality)
       (simp_all add: call_ollama_eq ex_env_local_down_def ex_world_def)
  from d1 n1 r1 d4 f4 r4 d3 f3 r3 d2 r2 show ?thesis by blast
qed

text \<open>
  C7 as stated fails: \<^verbatim>\<open>route_request\<close> has no check of the prompt. With the default
  configuration and no forced backend the empty prompt is routed as a standard task, the
  local backend is called with it, and its answer is returned as a success.
\<close>

theorem empty_prompt_rejected_counterexample:
  "route_request ex_router ex_env_up '''' None ex_world
     = (Inr \<lparr> result = Success ''local answer'' ''ollama-mistral'' 0 0 0,
              budget_status =
                \<lparr> current_month = ''2025-06'', status_spent = 0, status_requests = 0,
                  budget = 5, remaining = 5,
                  budget_data = [(''2025-06'', \<lparr> spent = 0, requests = 0 \<rparr>)] \<rparr>,
              routing_reason = Standard_task \<rparr>,
        \<lparr> budget_file = Missing,
          trace = [Enter_call_ollama '''', Http_post ''mistral'' ''''] \<rparr>)"
proof -
  have m: "now_month ex_env_up = ''2025-06''" by (simp add: ex_env_up_def)
  have b: "monthly_budget (config ex_router) = 5" by (simp add: ex_defs)
  have d: "routing_decision ex_router ex_env_up ex_world '''' None = Inr (False, Standard_task)"
    by (simp add: routing_decision_def ex_decisions [OF m])
  show ?thesis
    using ex_status_any [OF m b]
    by (simp add: route_request_def d dispatch_def call_ollama_eq)
       (simp add: ex_env_up_def ex_world_def)
qed

text \<open>
  C7, amended. \<^verbatim>\<open>route_request\<close> treats the empty prompt as any other prompt. With
  a readable ledger, a forced backend other than \<^verbatim>\<open>"claude"\<close> and no empty string among
  the force-paid keywords, it calls the local backend once with the empty prompt and
  returns that backend's result, success or failure.
\<close>

theorem empty_prompt_is_routed:
  assumes "get_budget_status r env w = Inr st"
    and "force_model \<noteq> Some ''claude''"
    and "'''' \<notin> set (escalation_keywords (config r))"
  shows "\<exists>reason.
      route_request r env '''' force_model w
        = (Inr \<lparr> result =
                   (case ollama_post env ''mistral'' '''' of
                      Reply answer \<Rightarrow> Success answer ''ollama-mistral'' 0 0 0
                    | Raise msg \<Rightarrow> Failure msg True),
                 budget_status = st, routing_reason = reason \<rparr>,
           w\<lparr> trace := trace w @ [Enter_call_ollama '''', Http_post ''mistral'' ''''] \<rparr>)"
proof -
  have "\<exists>reason. routing_decision r env w '''' force_model = Inr (False, reason)"
    using assms
    by (simp add: routing_decision_def should_escalate_to_claude_def lower_def
        any_keyword_in_empty)
  then obtain reason where d: "routing_decision r env w '''' force_model = Inr (False, reason)"
    by blast
  have "route_request r env '''' force_model w
        = (Inr \<lparr> result =
                   (case ollama_post env ''mistral'' '''' of
                      Reply answer \<Rightarrow> Success answer ''ollama-mistral'' 0 0 0
                    | Raise msg \<Rightarrow> Failure msg True),
                 budget_status = st, routing_reason = reason \<rparr>,
           w\<lparr> trace := trace w @ [Enter_call_ollama '''', Http_post ''mistral'' ''''] \<rparr>)"
    using assms(1)
    by (simp add: route_request_def d dispatch_def call_ollama_eq split: reply.splits)
  then show ?thesis by blast
qed

theorem empty_prompt_is_routed_witness:
  "get_budget_status ex_router ex_env_down ex_world
     = Inr \<lparr> current_month = ''2025-06'', status_spent = 0, status_requests = 0,
             budget = 5, remaining = 5,
             budget_data = [(''2025-06'', \<lparr> spent = 0, requests = 0 \<rparr>)] \<rparr>
   \<and> Some ''ollama'' \<noteq> Some ''claude''
   \<and> '''' \<notin> set (escalation_keywords (config ex_router))
   \<and> fst (route_request ex_router ex_env_down '''' (Some ''ollama'') ex_world)
        = Inr \<lparr> result = Failure ''connection refused'' True,
                budget_status =
                  \<lparr> current_month = ''2025-06'', status_spent = 0, status_requests = 0,
                    budget = 5, remaining = 5,
                    budget_data = [(''2025-06'', \<lparr> spent = 0, requests = 0 \<rparr>)] \<rparr>,
                routing_reason = Forced_ollama \<rparr>
   \<and> snd (route_request ex_router ex_env_down '''' (Some ''ollama'') ex_world)
        = \<lparr> budget_file = Missing,
            trace = [Enter_call_ollama '''', Http_post ''mistral'' ''''] \<rparr>"
proof -
  have m: "now_month ex_env_down = ''2025-06''" by (simp add: ex_env_down_def)
  have b: "monthly_budget (config ex_router) = 5" by (simp add: ex_defs)
  note st = ex_status_any [OF m b]
  have f: "Some ''ollama'' \<noteq> Some ''claude''" by simp
  have k: "'''' \<notin> set (escalation_keywords (config ex_router))" by (simp add: ex_keywords)
  have d: "routing_decision ex_router ex_env_down ex_world '''' (Some ''ollama'')
      = Inr (False, Forced_ollama)"
    by (simp add: routing_decision_def)
  from empty_prompt_is_routed [OF st f k] obtain reason where
    rr: "route_request ex_router ex_env_down '''' (Some ''ollama'') ex_world
        = (Inr \<lparr> result =
                   (case ollama_post ex_env_down ''mistral'' '''' of
                      Reply answer \<Rightarrow> Success answer ''ollama-mistral'' 0 0 0
                    | Raise msg \<Rightarrow> Failure msg True),
                 budget_status =
                   \<lparr> current_month = ''2025-06'', status_spent = 0, status_requests = 0,
                     budget = 5, remaining = 5,
                     budget_data = [(''2025-06'', \<lparr> spent = 0, requests = 0 \<rparr>)] \<rparr>,
                 routing_reason = reason \<rparr>,
           ex_world\<lparr> trace := trace ex_world @ [Enter_call_ollama '''', Http_post ''mistral'' ''''] \<rparr>)"
    by blast
  have "routing_reason (projr (fst (route_request ex_router ex_env_down '''' (Some ''ollama'') ex_world)))
      = Forced_ollama"
    by (simp add: route_request_def d dispatch_def call_ollama_eq st)
  with rr have "reason = Forced_ollama" by simp
  with rr st f k show ?thesis by (simp add: ex_env_down_def ex_world_def)
qed

text \<open>
  C2. The source tests \<^verbatim>\<open>keyword in prompt.lower()\<close>: the prompt is lowered, the keyword
  is not. The default force-paid keyword \<open>ASPICE\<close> is therefore found neither in the
  prompt "aspice audit", which contains it when case is ignored, nor in the prompt
  "ASPICE audit", which contains it literally: both prompts are routed to the local
  backend as standard tasks.
\<close>

theorem aspice_keyword_not_matched:
  "''ASPICE'' \<in> set (escalation_keywords (config ex_router_key))
   \<and> matches_ignoring_case ''ASPICE'' ''aspice audit''
   \<and> \<not> keyword_matches ''ASPICE'' ''aspice audit''
   \<and> should_escalate_to_claude ex_router_key ex_env_up ex_world ''aspice audit''
       = Inr (False, Standard_task)
   \<and> str_in ''ASPICE'' ''ASPICE audit''
   \<and> \<not> keyword_matches ''ASPICE'' ''ASPICE audit''
   \<and> should_escalate_to_claude ex_router_key ex_env_up ex_world ''ASPICE audit''
       = Inr (False, Standard_task)"
proof -
  have m: "now_month ex_env_up = ''2025-06''" by (simp add: ex_env_up_def)
  have "matches_ignoring_case ''ASPICE'' ''aspice audit''"
    by (simp add: matches_ignoring_case_def ex_lower)
  moreover have "str_in ''ASPICE'' ''ASPICE audit''" by simp
  ultimately show ?thesis
    using aspice_never_matches by (simp add: ex_decisions [OF m] ex_keywords)
qed


text \<open>
  C8 as stated fails in its last part. With a prompt of 400 characters, an answer of 200
  characters and the default rates, the token counts are 100 and 50, and the cost that
  \<^verbatim>\<open>call_claude\<close> returns and records is the double \<open>2421135159674379 / 2 ^ 61\<close>
  (printed \<^verbatim>\<open>0.0010500000000000002\<close>). That is neither the number 0.00105 nor the double
  nearest to it.
\<close>

theorem claude_cost_exact_counterexample:
  "length (replicate 400 (CHR ''a'')) div 4 = 100
   \<and> length (replicate 200 (CHR ''b'')) div 4 = 50
   \<and> cost_per_input_token (config ex_router_key) = round_double (3 / 1000000)
   \<and> cost_per_output_token (config ex_router_key) = round_double (15 / 1000000)
   \<and> call_claude ex_router_key ex_env_long (replicate 400 (CHR ''a'')) ex_world
     = (Success (replicate 200 (CHR ''b'')) ''claude-3-sonnet'' (2421135159674379 / 2 ^ 61) 100 50,
        \<lparr> budget_file =
            Valid [(''2025-06'', \<lparr> spent = 2421135159674379 / 2 ^ 61, requests = 1 \<rparr>)],
          trace = [Enter_call_claude (replicate 400 (CHR ''a'')),
                   Messages_create (replicate 400 (CHR ''a'')),
                   Ledger_write
                     [(''2025-06'', \<lparr> spent = 2421135159674379 / 2 ^ 61, requests = 1 \<rparr>)]] \<rparr>)
   \<and> (2421135159674379 / 2 ^ 61 :: rat) \<noteq> round_double (105 / 100000)
   \<and> (2421135159674379 / 2 ^ 61 :: rat) \<noteq> 105 / 100000"
proof -
  let ?p = "replicate 400 (CHR ''a'')"
  let ?a = "replicate 200 (CHR ''b'')"
  have key: "claude_client ex_router_key" by (simp add: ex_defs)
  have rep: "claude_create ex_env_long ?p = Reply ?a" by (simp add: ex_env_long_def)
  have rates: "cost_per_input_token (config ex_router_key) = round_double (3 / 1000000)"
    "cost_per_output_token (config ex_router_key) = round_double (15 / 1000000)"
    by (simp_all add: ex_defs)
  have "call_claude ex_router_key ex_env_long ?p ex_world
        = (Success ?a ''claude-3-sonnet'' ex_cost 100 50,
           \<lparr> budget_file = Valid [(''2025-06'', \<lparr> spent = ex_cost, requests = 1 \<rparr>)],
           trace = [Enter_call_claude ?p, Messages_create ?p,
                    Ledger_write [(''2025-06'', \<lparr> spent = ex_cost, requests = 1 \<rparr>)]] \<rparr>)"
    using key rep ex_update_budget_cost
    by (simp add: call_claude_def Let_def emit_def cost_examples)
  moreover have "ex_cost \<noteq> round_double (105 / 100000)" "ex_cost \<noteq> 105 / 100000"
    by (rule cost_examples)+
  ultimately show ?thesis
    unfolding ex_cost_def using rates by simp
qed

text \<open>
  C8, amended. On a successful paid call (a client, an answer from the API, a readable
  ledger whose file can be written) \<^verbatim>\<open>call_claude\<close> takes \<open>len(prompt) // 4\<close> and \<open>len(answer) // 4\<close> as token
  counts, computes the cost as input tokens times input rate plus output tokens times
  output rate in double arithmetic (both products and the sum rounded), returns it and
  passes it to \<^verbatim>\<open>update_budget\<close>. For 100 and 50 tokens at the rates 3e-6 and 15e-6 the
  cost is \<open>2421135159674379 / 2 ^ 61\<close>, one unit in the last place (\<open>2 ^ - 62\<close>) above the
  double nearest to 0.00105.
\<close>

theorem claude_cost_in_doubles:
  assumes "claude_client r"
    and "claude_create env prompt = Reply answer"
    and "get_budget_status r env w = Inr st"
    and "budget_file w \<noteq> No_directory"
  shows "\<exists>c w'.
      c = fadd (fmul (float_of_int (int (length prompt div 4))) (cost_per_input_token (config r)))
               (fmul (float_of_int (int (length answer div 4))) (cost_per_output_token (config r)))
    \<and> call_claude r env prompt w
        = (Success answer ''claude-3-sonnet'' c (length prompt div 4) (length answer div 4), w')
    \<and> update_budget r env c
          (w\<lparr> trace := trace w @ [Enter_call_claude prompt, Messages_create prompt] \<rparr>) = Inr w'
    \<and> (length prompt div 4 = 100 \<and> length answer div 4 = 50
         \<and> cost_per_input_token (config r) = round_double (3 / 1000000)
         \<and> cost_per_output_token (config r) = round_double (15 / 1000000)
        \<longrightarrow> c = 2421135159674379 / 2 ^ 61 \<and> c - round_double (105 / 100000) = 1 / 2 ^ 62)"
proof -
  define c where "c =
    fadd (fmul (float_of_int (int (length prompt div 4))) (cost_per_input_token (config r)))
         (fmul (float_of_int (int (length answer div 4))) (cost_per_output_token (config r)))"
  define w1 where "w1 = w\<lparr> trace := trace w @ [Enter_call_claude prompt, Messages_create prompt] \<rparr>"
  have "get_budget_status r env w1 = Inr st" using assms(3) by (simp add: w1_def)
  moreover have "budget_file w1 \<noteq> No_directory" using assms(4) by (simp add: w1_def)
  ultimately obtain w' where upd: "update_budget r env c w1 = Inr w'"
    using update_budget_Inr [of r env w1 st c] by blast
  have cc: "call_claude r env prompt w
        = (Success answer ''claude-3-sonnet'' c (length prompt div 4) (length answer div 4), w')"
    using assms(1,2) upd
    by (simp add: call_claude_def Let_def emit_def claude_cost_def c_def w1_def)
  have num: "length prompt div 4 = 100 \<and> length answer div 4 = 50
         \<and> cost_per_input_token (config r) = round_double (3 / 1000000)
         \<and> cost_per_output_token (config r) = round_double (15 / 1000000)
        \<longrightarrow> c = 2421135159674379 / 2 ^ 61 \<and> c - round_double (105 / 100000) = 1 / 2 ^ 62"
  proof (intro impI, elim conjE)
    assume a: "length prompt div 4 = 100" "length answer div 4 = 50"
      "cost_per_input_token (config r) = round_double (3 / 1000000)"
      "cost_per_output_token (config r) = round_double (15 / 1000000)"
    have v: "c = 2421135159674379 / 2 ^ 61"
      unfolding c_def a by (rule cost_examples(1))
    have "c - round_double (105 / 100000) = 1 / 2 ^ 62"
      unfolding v cost_examples(2) by simp
    with v show "c = 2421135159674379 / 2 ^ 61 \<and> c - round_double (105 / 100000) = 1 / 2 ^ 62"
      by simp
  qed
  from cc upd num show ?thesis unfolding c_def w1_def by blast
qed

theorem claude_cost_in_doubles_witness:
  "claude_client ex_router_key
   \<and> claude_create ex_env_long (replicate 400 (CHR ''a'')) = Reply (replicate 200 (CHR ''b''))
   \<and> get_budget_status ex_router_key ex_env_long ex_world
     = Inr \<lparr> current_month = ''2025-06'', status_spent = 0, status_requests = 0,
             budget = 5, remaining = 5,
             budget_data = [(''2025-06'', \<lparr> spent = 0, requests = 0 \<rparr>)] \<rparr>
   \<and> budget_file ex_world \<noteq> No_directory
   \<and> length (replicate 400 (CHR ''a'')) div 4 = 100
   \<and> length (replicate 200 (CHR ''b'')) div 4 = 50
   \<and> cost_per_input_token (config ex_router_key) = round_double (3 / 1000000)
   \<and> cost_per_output_token (config ex_router_key) = round_double (15 / 1000000)
   \<and> call_claude ex_router_key ex_env_long (replicate 400 (CHR ''a'')) ex_world
     = (Success (replicate 200 (CHR ''b'')) ''claude-3-sonnet'' (2421135159674379 / 2 ^ 61) 100 50,
        \<lparr> budget_file =
            Valid [(''2025-06'', \<lparr> spent = 2421135159674379 / 2 ^ 61, requests = 1 \<rparr>)],
          trace = [Enter_call_claude (replicate 400 (CHR ''a'')),
                   Messages_create (replicate 400 (CHR ''a'')),
                   Ledger_write
                     [(''2025-06'', \<lparr> spent = 2421135159674379 / 2 ^ 61, requests = 1 \<rparr>)]] \<rparr>)"
proof -
  let ?p = "replicate 400 (CHR ''a'')"
  let ?a = "replicate 200 (CHR ''b'')"
  have key: "claude_client ex_router_key" by (simp add: ex_defs)
  have b: "monthly_budget (config ex_router_key) = 5" by (simp add: ex_defs)
  have m: "now_month ex_env_long = ''2025-06''" by (simp add: ex_env_long_def)
  have rep: "claude_create ex_env_long ?p = Reply ?a" by (simp add: ex_env_long_def)
  note st = ex_status_any [OF m b]
  have dir: "budget_file ex_world \<noteq> No_directory" by (simp add: ex_world_def)
  have len: "length ?p div 4 = 100" "length ?a div 4 = 50" by simp_all
  have rates: "cost_per_input_token (config ex_router_key) = round_double (3 / 1000000)"
    "cost_per_output_token (config ex_router_key) = round_double (15 / 1000000)"
    by (simp_all add: ex_defs)
  from claude_cost_in_doubles [OF key rep st dir] obtain c w' where
    cc: "call_claude ex_router_key ex_env_long ?p ex_world
        = (Success ?a ''claude-3-sonnet'' c (length ?p div 4) (length ?a div 4), w')"
    and upd: "update_budget ex_router_key ex_env_long c
          (ex_world\<lparr> trace := trace ex_world @ [Enter_call_claude ?p, Messages_create ?p] \<rparr>)
        = Inr w'"
    and num: "length ?p div 4 = 100 \<and> length ?a div 4 = 50
         \<and> cost_per_input_token (config ex_router_key) = round_double (3 / 1000000)
         \<and> cost_per_output_token (config ex_router_key) = round_double (15 / 1000000)
        \<longrightarrow> c = 2421135159674379 / 2 ^ 61 \<and> c - round_double (105 / 100000) = 1 / 2 ^ 62"
    by blast
  from num len rates have "c = 2421135159674379 / 2 ^ 61" by blast
  then have c: "c = ex_cost" by (simp add: ex_cost_def)
  from upd have w': "w' = \<lparr> budget_file = Valid [(''2025-06'', \<lparr> spent = ex_cost, requests = 1 \<rparr>)],
           trace = [Enter_call_claude ?p, Messages_create ?p,
                    Ledger_write [(''2025-06'', \<lparr> spent = ex_cost, requests = 1 \<rparr>)]] \<rparr>"
    unfolding c ex_update_budget_cost by simp
  have "call_claude ex_router_key ex_env_long ?p ex_world
        = (Success ?a ''claude-3-sonnet'' ex_cost 100 50,
           \<lparr> budget_file = Valid [(''2025-06'', \<lparr> spent = ex_cost, requests = 1 \<rparr>)],
           trace = [Enter_call_claude ?p, Messages_create ?p,
                    Ledger_write [(''2025-06'', \<lparr> spent = ex_cost, requests = 1 \<rparr>)]] \<rparr>)"
    using cc unfolding c w' len by simp
  then show ?thesis
    unfolding ex_cost_def using key rep st dir len rates by simp
qed

end
